theory Spec2Isabelle
  imports Complex_Main
begin

section \<open>Errors\<close>

text \<open>The exceptions the embedded Python can raise.\<close>

datatype error =
    IndexError
  | KeyError
  | TypeError
  | ValueError
  | ZeroDivisionError
  | OSError

section \<open>Dictionaries, arrays and loops\<close>

text \<open>
  A Python \<open>dict\<close> keeps its keys in insertion order; assigning to a key that is
  present keeps the key's place.
\<close>

fun dict_set :: "'k \<Rightarrow> 'v \<Rightarrow> ('k \<times> 'v) list \<Rightarrow> ('k \<times> 'v) list" where
  "dict_set k v [] = [(k, v)]"
| "dict_set k v ((k', v') # kvs) = (if k' = k then (k, v) # kvs else (k', v') # dict_set k v kvs)"

definition dict_get :: "('k \<times> 'v) list \<Rightarrow> 'k \<Rightarrow> error + 'v" where
  "dict_get d k = (case map_of d k of None \<Rightarrow> Inl KeyError | Some v \<Rightarrow> Inr v)"

definition dict_has :: "('k \<times> 'v) list \<Rightarrow> 'k \<Rightarrow> bool" where
  "dict_has d k = (map_of d k \<noteq> None)"

text \<open>Reading an array at an index that \<open>enumerate\<close> or \<open>range\<close> produced.\<close>

definition arr_get :: "'a list \<Rightarrow> nat \<Rightarrow> error + 'a" where
  "arr_get xs i = (if i < length xs then Inr (xs ! i) else Inl IndexError)"

text \<open>A \<open>for\<close> loop over a list whose body may raise.\<close>

fun for_each :: "('a \<Rightarrow> 's \<Rightarrow> error + 's) \<Rightarrow> 'a list \<Rightarrow> 's \<Rightarrow> error + 's" where
  "for_each f [] s = Inr s"
| "for_each f (x # xs) s = (case f x s of Inl e \<Rightarrow> Inl e | Inr s' \<Rightarrow> for_each f xs s')"

section \<open>Floating-point values\<close>

text \<open>
  A float is a real number (every double is one), or \<open>None\<close> for a value that is not
  finite (\<open>nan\<close>, \<open>inf\<close>). numpy does not raise on a float division by zero or on the
  square root of a negative number: it yields a non-finite value; an operation on a
  non-finite value is taken to yield a non-finite value again.

  The result of an operation on finite values is the exact result, rounded. How the
  machine rounds is left open: an arithmetic \<open>ar\<close> holds the function \<open>rnd\<close> that maps
  the exact result of one operation to the float that is stored (\<open>None\<close> when it
  overflows), and the library functions whose order of accumulation and accuracy are
  the library's own: Python's \<open>x ** 2\<close> for a float, \<open>np.exp\<close>, \<open>np.sum\<close> along axis 0 (\<open>np_sum_axis0\<close>, for one
  column), \<open>np.sum\<close> of all the elements of an array (\<open>np_sum\<close>, for the elements in
  storage order), \<open>np.linalg.norm\<close> of a vector, and the sum of one float per process
  in \<open>comm.allreduce\<close>. What is proved for every arithmetic holds for the doubles of
  the machine.
\<close>

type_synonym fl = "real option"

record arith =
  rnd :: "real \<Rightarrow> fl"
  py_sq :: "real \<Rightarrow> fl"
  np_exp :: "fl \<Rightarrow> fl"
  np_sum_axis0 :: "fl list \<Rightarrow> fl"
  np_sum :: "fl list \<Rightarrow> fl"
  np_norm :: "fl list \<Rightarrow> fl"
  allreduce_sum :: "fl list \<Rightarrow> fl"

definition fl_add :: "arith \<Rightarrow> fl \<Rightarrow> fl \<Rightarrow> fl" where
  "fl_add ar a b =
     (case a of None \<Rightarrow> None | Some x \<Rightarrow> (case b of None \<Rightarrow> None | Some y \<Rightarrow> rnd ar (x + y)))"

definition fl_sub :: "arith \<Rightarrow> fl \<Rightarrow> fl \<Rightarrow> fl" where
  "fl_sub ar a b =
     (case a of None \<Rightarrow> None | Some x \<Rightarrow> (case b of None \<Rightarrow> None | Some y \<Rightarrow> rnd ar (x - y)))"

definition fl_mul :: "arith \<Rightarrow> fl \<Rightarrow> fl \<Rightarrow> fl" where
  "fl_mul ar a b =
     (case a of None \<Rightarrow> None | Some x \<Rightarrow> (case b of None \<Rightarrow> None | Some y \<Rightarrow> rnd ar (x * y)))"

definition fl_div :: "arith \<Rightarrow> fl \<Rightarrow> fl \<Rightarrow> fl" where
  "fl_div ar a b =
     (case a of None \<Rightarrow> None
      | Some x \<Rightarrow> (case b of None \<Rightarrow> None | Some y \<Rightarrow> if y = 0 then None else rnd ar (x / y)))"

definition fl_sqrt :: "arith \<Rightarrow> fl \<Rightarrow> fl" where
  "fl_sqrt ar a = (case a of None \<Rightarrow> None | Some x \<Rightarrow> if x < 0 then None else rnd ar (sqrt x))"

text \<open>\<open>x ** 2\<close> for the elements of an array\<close>

definition fl_sq :: "arith \<Rightarrow> fl \<Rightarrow> fl" where
  "fl_sq ar a = fl_mul ar a a"

text \<open>
  \<open>np.around\<close> rounds to the nearest integer, and a tie to the even neighbour; its
  result is a float without further rounding.
\<close>

definition around :: "real \<Rightarrow> real" where
  "around x =
     (let n = \<lfloor>x\<rfloor>; d = x - of_int n
      in if d < 1 / 2 then of_int n
         else if 1 / 2 < d then of_int n + 1
         else if even n then of_int n
         else of_int n + 1)"

definition fl_around :: "fl \<Rightarrow> fl" where
  "fl_around a = (case a of None \<Rightarrow> None | Some x \<Rightarrow> Some (around x))"

text \<open>
  The arithmetic without rounding, for the examples: their values are small integers
  and halves, quarters or eighths of them, which the doubles of the machine hold, add,
  multiply and divide without rounding.
\<close>

definition exact_sum :: "fl list \<Rightarrow> fl" where
  "exact_sum xs =
     foldr (\<lambda>a b. case a of None \<Rightarrow> None
                   | Some x \<Rightarrow> (case b of None \<Rightarrow> None | Some y \<Rightarrow> Some (x + y))) xs (Some 0)"

definition exact_norm :: "fl list \<Rightarrow> fl" where
  "exact_norm v =
     (case exact_sum (map (\<lambda>a. case a of None \<Rightarrow> None | Some x \<Rightarrow> Some (x * x)) v) of
        None \<Rightarrow> None
      | Some s \<Rightarrow> Some (sqrt s))"

definition exact_arith :: arith where
  "exact_arith =
     \<lparr>rnd = Some, py_sq = (\<lambda>x. Some (x * x)), np_exp = map_option exp, np_sum_axis0 = exact_sum, np_sum = exact_sum,
      np_norm = exact_norm, allreduce_sum = exact_sum\<rparr>"

section \<open>Diagnostic logging (hPF/logger.py)\<close>

subsection \<open>The \<open>%\<close>-style formatter of the logging library\<close>

text \<open>
  \<open>logging.Formatter(fmt)\<close> renders a record as \<open>fmt % record.__dict__\<close>.
  The part of Python's \<open>%\<close> operator the format of \<open>Logger\<close> uses is embedded:
  \<open>%(key)\<close>, the flag \<open>-\<close>, a decimal width and the conversions \<open>s\<close> and \<open>d\<close>,
  and \<open>%%\<close>.
\<close>

datatype pyval = PStr string | PInt int | PFloat real

fun digit_char :: "nat \<Rightarrow> char" where
  "digit_char n = char_of (48 + n)"

fun show_nat :: "nat \<Rightarrow> string" where
  "show_nat n = (if n < 10 then [digit_char n] else show_nat (n div 10) @ [digit_char (n mod 10)])"

declare show_nat.simps [simp del]

definition show_int :: "int \<Rightarrow> string" where
  "show_int i = (if i < 0 then CHR ''-'' # show_nat (nat (- i)) else show_nat (nat i))"

text \<open>\<open>int(x)\<close> of a float truncates towards zero.\<close>

definition trunc :: "real \<Rightarrow> int" where
  "trunc x = (if x < 0 then - \<lfloor>- x\<rfloor> else \<lfloor>x\<rfloor>)"

text \<open>\<open>str.ljust\<close> and \<open>str.rjust\<close> with blanks: what a width does to a conversion.\<close>

definition ljust :: "nat \<Rightarrow> string \<Rightarrow> string" where
  "ljust w s = s @ replicate (w - length s) CHR '' ''"

definition rjust :: "nat \<Rightarrow> string \<Rightarrow> string" where
  "rjust w s = replicate (w - length s) CHR '' '' @ s"

definition pad :: "bool \<Rightarrow> nat \<Rightarrow> string \<Rightarrow> string" where
  "pad left w s = (if left then ljust w s else rjust w s)"

text \<open>Conversion \<open>s\<close> applies \<open>str\<close>; conversion \<open>d\<close> needs a number.\<close>

fun conv_s :: "pyval \<Rightarrow> error + string" where
  "conv_s (PStr s) = Inr s"
| "conv_s (PInt i) = Inr (show_int i)"
| "conv_s (PFloat x) = Inl TypeError"

fun conv_d :: "pyval \<Rightarrow> error + string" where
  "conv_d (PStr s) = Inl TypeError"
| "conv_d (PInt i) = Inr (show_int i)"
| "conv_d (PFloat x) = Inr (show_int (trunc x))"

datatype pstate =
    Lit
  | AfterPct
  | InKey string
  | InSpec string bool nat

definition is_digit :: "char \<Rightarrow> bool" where
  "is_digit c = ((48::nat) \<le> of_char c \<and> (of_char c :: nat) \<le> 57)"

definition digit_val :: "char \<Rightarrow> nat" where
  "digit_val c = (of_char c :: nat) - 48"

fun percent_go :: "pstate \<Rightarrow> (string \<Rightarrow> pyval option) \<Rightarrow> string \<Rightarrow> error + string" where
  "percent_go Lit d [] = Inr []"
| "percent_go st d [] = Inl ValueError"
| "percent_go Lit d (c # cs) =
     (if c = CHR ''%'' then percent_go AfterPct d cs
      else (case percent_go Lit d cs of Inl e \<Rightarrow> Inl e | Inr out \<Rightarrow> Inr (c # out)))"
| "percent_go AfterPct d (c # cs) =
     (if c = CHR ''('' then percent_go (InKey []) d cs
      else if c = CHR ''%'' then
        (case percent_go Lit d cs of Inl e \<Rightarrow> Inl e | Inr out \<Rightarrow> Inr (c # out))
      else Inl TypeError)"
| "percent_go (InKey k) d (c # cs) =
     (if c = CHR '')'' then percent_go (InSpec k False 0) d cs
      else percent_go (InKey (k @ [c])) d cs)"
| "percent_go (InSpec k left w) d (c # cs) =
     (if c = CHR ''-'' \<and> w = 0 then percent_go (InSpec k True w) d cs
      else if is_digit c then percent_go (InSpec k left (10 * w + digit_val c)) d cs
      else if c = CHR ''s'' \<or> c = CHR ''d'' then
        (case d k of
           None \<Rightarrow> Inl KeyError
         | Some v \<Rightarrow>
             (case (if c = CHR ''s'' then conv_s v else conv_d v) of
                Inl e \<Rightarrow> Inl e
              | Inr s \<Rightarrow>
                  (case percent_go Lit d cs of
                     Inl e \<Rightarrow> Inl e
                   | Inr out \<Rightarrow> Inr (pad left w s @ out))))
      else Inl ValueError)"

definition percent_format :: "string \<Rightarrow> (string \<Rightarrow> pyval option) \<Rightarrow> error + string" where
  "percent_format fmt d = percent_go Lit d fmt"

subsection \<open>Log records\<close>

text \<open>
  The attributes of a \<open>logging.LogRecord\<close> that the format of \<open>Logger\<close> reads.
  \<open>asctime\<close> is the time as the formatter's \<open>formatTime\<close> wrote it, \<open>msecs\<close> the
  millisecond part of the creation time, a float.
\<close>

record log_record =
  asctime :: string
  msecs :: real
  levelname :: string
  levelno :: int
  filename :: string
  lineno :: int
  funcName :: string
  message :: string

definition record_dict :: "log_record \<Rightarrow> string \<Rightarrow> pyval option" where
  "record_dict r k =
     (if k = ''asctime'' then Some (PStr (asctime r))
      else if k = ''msecs'' then Some (PFloat (msecs r))
      else if k = ''levelname'' then Some (PStr (levelname r))
      else if k = ''levelno'' then Some (PInt (levelno r))
      else if k = ''filename'' then Some (PStr (filename r))
      else if k = ''lineno'' then Some (PInt (lineno r))
      else if k = ''funcName'' then Some (PStr (funcName r))
      else if k = ''message'' then Some (PStr (message r))
      else None)"

subsection \<open>The class \<open>Logger\<close>\<close>

definition format_str :: string where
  "format_str = ''%(levelname)-8s [%(filename)s:%(lineno)d] <%(funcName)s> %(message)s''"

definition date_format :: string where
  "date_format = ''%(asctime)s,%(msecs)d''"

text \<open>\<open>formatter = logging.Formatter(fmt=date_format + format)\<close>\<close>

definition formatter :: string where
  "formatter = date_format @ format_str"

datatype stream = Stdout | Stderr

datatype sink = FileSink string | StreamSink stream

record handler =
  h_sink :: sink
  h_level :: int
  h_formatter :: "string option"

datatype log_filter = MPIFilter

record channel =
  ch_level :: int
  ch_filters :: "log_filter list"
  ch_handlers :: "handler list"

text \<open>
  The class attributes of \<open>Logger\<close>. \<open>log_file_handler\<close>, \<open>log_to_stdout\<close> and
  \<open>stdout_handler\<close> do not exist before \<open>setup\<close> assigns them: \<open>None\<close> here.
\<close>

record logger =
  level :: "int option"
  log_file :: "string option"
  rank0 :: channel
  all_ranks :: channel
  log_file_handler :: "handler option"
  log_to_stdout :: "bool option"
  stdout_handler :: "handler option"

text \<open>A logger of the library as \<open>logging.getLogger\<close> creates it: level \<open>NOTSET\<close>.\<close>

definition getLogger :: channel where
  "getLogger = \<lparr>ch_level = 0, ch_filters = [], ch_handlers = []\<rparr>"

definition Logger :: logger where
  "Logger = \<lparr>level = None, log_file = None, rank0 = getLogger, all_ranks = getLogger,
     log_file_handler = None, log_to_stdout = None, stdout_handler = None\<rparr>"

definition setLevel :: "int \<Rightarrow> channel \<Rightarrow> channel" where
  "setLevel l ch = ch\<lparr>ch_level := l\<rparr>"

text \<open>
  \<open>addFilter\<close> and \<open>addHandler\<close> append an object that is not in the list yet.
  \<open>setup\<close> passes a filter or handler it has just created, so it is appended.
\<close>

definition addFilter :: "log_filter \<Rightarrow> channel \<Rightarrow> channel" where
  "addFilter f ch = ch\<lparr>ch_filters := ch_filters ch @ [f]\<rparr>"

definition addHandler :: "handler \<Rightarrow> channel \<Rightarrow> channel" where
  "addHandler h ch = ch\<lparr>ch_handlers := ch_handlers ch @ [h]\<rparr>"

text \<open>Python's truth value of \<open>log_file\<close>: neither \<open>None\<close> nor the empty string.\<close>

fun truthy :: "string option \<Rightarrow> bool" where
  "truthy None = False"
| "truthy (Some s) = (s \<noteq> [])"

text \<open>
  \<open>Logger.setup\<close>. \<open>can_open\<close> says which paths \<open>logging.FileHandler\<close> can open for
  appending; on any other path it raises \<open>OSError\<close>.
\<close>

definition Logger_setup :: "(string \<Rightarrow> bool) \<Rightarrow> int \<Rightarrow> string option \<Rightarrow> bool \<Rightarrow> logger \<Rightarrow> error + logger" where
  "Logger_setup can_open default_level lf to_stdout cls =
     (let cls = cls\<lparr>level := Some default_level\<rparr>;
          cls = cls\<lparr>log_file := lf\<rparr>;
          cls = cls\<lparr>rank0 := setLevel default_level (rank0 cls)\<rparr>;
          cls = cls\<lparr>all_ranks := setLevel default_level (all_ranks cls)\<rparr>;
          cls = cls\<lparr>rank0 := addFilter MPIFilter (rank0 cls)\<rparr>
      in if \<not> truthy lf \<and> \<not> to_stdout then Inr cls
         else
           (case
              (if truthy lf then
                 (if can_open (the lf) then
                    (let h = \<lparr>h_sink = FileSink (the lf), h_level = 0, h_formatter = None\<rparr>;
                         h = h\<lparr>h_level := default_level\<rparr>;
                         h = h\<lparr>h_formatter := Some formatter\<rparr>;
                         cls = cls\<lparr>log_file_handler := Some h\<rparr>;
                         cls = cls\<lparr>rank0 := addHandler h (rank0 cls)\<rparr>;
                         cls = cls\<lparr>all_ranks := addHandler h (all_ranks cls)\<rparr>
                     in Inr cls)
                  else Inl OSError)
               else Inr cls) of
              Inl e \<Rightarrow> Inl e
            | Inr cls \<Rightarrow>
                (if to_stdout then
                   (let cls = cls\<lparr>log_to_stdout := Some True\<rparr>;
                        h = \<lparr>h_sink = StreamSink Stderr, h_level = 0, h_formatter = None\<rparr>;
                        h = h\<lparr>h_level := default_level\<rparr>;
                        h = h\<lparr>h_sink := StreamSink Stdout\<rparr>;
                        h = h\<lparr>h_formatter := Some formatter\<rparr>;
                        cls = cls\<lparr>stdout_handler := Some h\<rparr>;
                        cls = cls\<lparr>rank0 := addHandler h (rank0 cls)\<rparr>;
                        cls = cls\<lparr>all_ranks := addHandler h (all_ranks cls)\<rparr>
                    in Inr cls)
                 else Inr cls)))"

text \<open>
  The line a handler writes for a record: the record rendered by the handler's
  formatter (the library's default \<open>%(message)s\<close> when none is set), then a newline.
\<close>

definition handler_format :: "handler \<Rightarrow> log_record \<Rightarrow> error + string" where
  "handler_format h r =
     percent_format (case h_formatter h of None \<Rightarrow> ''%(message)s'' | Some f \<Rightarrow> f) (record_dict r)"

definition emit :: "handler \<Rightarrow> log_record \<Rightarrow> error + string" where
  "emit h r = (case handler_format h r of Inl e \<Rightarrow> Inl e | Inr s \<Rightarrow> Inr (s @ [CHR 0x0A]))"

text \<open>The line format as the specification words it, with single blanks between the fields.\<close>

definition spec_line :: "log_record \<Rightarrow> string" where
  "spec_line r =
     asctime r @ '','' @ show_int (trunc (msecs r)) @ '' '' @ ljust 8 (levelname r)
       @ '' ['' @ filename r @ '':'' @ show_int (lineno r) @ ''] '' @ funcName r
       @ '' '' @ message r"

text \<open>The line the format string of \<open>Logger\<close> yields.\<close>

definition code_line :: "log_record \<Rightarrow> string" where
  "code_line r =
     asctime r @ '','' @ show_int (trunc (msecs r)) @ ljust 8 (levelname r)
       @ '' ['' @ filename r @ '':'' @ show_int (lineno r) @ ''] <'' @ funcName r
       @ ''> '' @ message r"

text \<open>A file system on which every path can be opened, and a record to log.\<close>

definition any_path :: "string \<Rightarrow> bool" where
  "any_path p = True"

definition example_record :: log_record where
  "example_record = \<lparr>asctime = ''2020-05-04 10:11:12,345'', msecs = 345.678,
     levelname = ''INFO'', levelno = 20, filename = ''main.py'', lineno = 42,
     funcName = ''run'', message = ''started''\<rparr>"

section \<open>Bonded-list construction (hymd/force.py)\<close>

subsection \<open>Configuration\<close>

record Bond =
  atom_1 :: string
  atom_2 :: string
  equilibrium :: real
  strength :: real

record Angle = Bond +
  atom_3 :: string

text \<open>
  The configuration object (\<open>input_parser.Config\<close>) is not part of these sources;
  \<open>prepare_bonds_old\<close> reads its fields \<open>bonds\<close> and \<open>angle_bonds\<close>. The
  thermostat reads further fields, added to the record there.
\<close>

record Config =
  bonds :: "Bond list"
  angle_bonds :: "Angle list"

subsection \<open>The graph library\<close>

text \<open>
  \<open>networkx.Graph\<close>: the node dictionary maps a node to its attributes, the adjacency
  dictionary maps a node to its neighbours, both in insertion order. A node that only
  \<open>add_edge\<close> created has no attributes (\<open>None\<close> here); \<open>prepare_bonds_old\<close> sets
  the attributes \<open>name\<close> and \<open>local_index\<close> together.
\<close>

record graph =
  g_node :: "(int \<times> (string \<times> nat) option) list"
  g_adj :: "(int \<times> int list) list"

definition Graph :: graph where
  "Graph = \<lparr>g_node = [], g_adj = []\<rparr>"

definition add_node :: "int \<Rightarrow> string \<Rightarrow> nat \<Rightarrow> graph \<Rightarrow> graph" where
  "add_node n name local_index g =
     (if \<not> dict_has (g_node g) n
      then g\<lparr>g_adj := dict_set n [] (g_adj g), g_node := dict_set n (Some (name, local_index)) (g_node g)\<rparr>
      else g\<lparr>g_node := dict_set n (Some (name, local_index)) (g_node g)\<rparr>)"

definition touch_node :: "int \<Rightarrow> graph \<Rightarrow> graph" where
  "touch_node n g =
     (if \<not> dict_has (g_node g) n
      then g\<lparr>g_adj := dict_set n [] (g_adj g), g_node := dict_set n None (g_node g)\<rparr>
      else g)"

definition adj_of :: "graph \<Rightarrow> int \<Rightarrow> int list" where
  "adj_of g n = (case map_of (g_adj g) n of None \<Rightarrow> [] | Some ws \<Rightarrow> ws)"

definition link :: "int \<Rightarrow> int \<Rightarrow> graph \<Rightarrow> graph" where
  "link u v g =
     g\<lparr>g_adj := dict_set u (if v \<in> set (adj_of g u) then adj_of g u else adj_of g u @ [v]) (g_adj g)\<rparr>"

definition add_edge :: "int \<Rightarrow> int \<Rightarrow> graph \<Rightarrow> graph" where
  "add_edge u v g = link v u (link u v (touch_node v (touch_node u g)))"

text \<open>
  \<open>single_source_shortest_path\<close>: breadth-first search. \<open>paths\<close> maps each node
  reached to the path that reached it first, in the order of discovery.
\<close>

definition visit :: "int \<Rightarrow> int \<Rightarrow> (int \<times> int list) list \<times> int list
    \<Rightarrow> error + (int \<times> int list) list \<times> int list" where
  "visit v w s =
     (case s of (paths, nextlevel) \<Rightarrow>
        if \<not> dict_has paths w then
          (case dict_get paths v of
             Inl e \<Rightarrow> Inl e
           | Inr pv \<Rightarrow> Inr (paths @ [(w, pv @ [w])], nextlevel @ [w]))
        else Inr (paths, nextlevel))"

definition expand :: "(int \<times> int list) list \<Rightarrow> int \<Rightarrow> (int \<times> int list) list \<times> int list
    \<Rightarrow> error + (int \<times> int list) list \<times> int list" where
  "expand adj v s =
     (case dict_get adj v of
        Inl e \<Rightarrow> Inl e
      | Inr ws \<Rightarrow> for_each (visit v) ws s)"

definition keys :: "('k \<times> 'v) list \<Rightarrow> 'k set" where
  "keys d = fst ` set d"

definition targets :: "(int \<times> int list) list \<Rightarrow> int set" where
  "targets adj = set (concat (map snd adj))"

lemma visit_grows:
  assumes "visit v w (p, n) = Inr (p', n')"
  shows "keys p \<subseteq> keys p' \<and> set n' \<subseteq> set n \<union> (({w} \<inter> keys p') - keys p)"
  using assms
  by (auto simp: visit_def keys_def dict_has_def split: if_splits sum.splits
      dest: weak_map_of_SomeI)

lemma for_each_visit_grows:
  assumes "for_each (visit v) ws (p, n) = Inr (p', n')"
  shows "keys p \<subseteq> keys p' \<and> set n' \<subseteq> set n \<union> ((set ws \<inter> keys p') - keys p)"
  using assms
proof (induction ws arbitrary: p n)
  case Nil
  then show ?case by simp
next
  case (Cons w ws)
  then obtain p1 n1 where v: "visit v w (p, n) = Inr (p1, n1)"
    and r: "for_each (visit v) ws (p1, n1) = Inr (p', n')"
    by (auto split: sum.splits)
  from visit_grows [OF v] Cons.IH [OF r] show ?case by auto
qed

lemma expand_grows:
  assumes "expand adj v (p, n) = Inr (p', n')"
  shows "keys p \<subseteq> keys p' \<and> set n' \<subseteq> set n \<union> ((targets adj \<inter> keys p') - keys p)"
proof -
  from assms obtain ws where g: "dict_get adj v = Inr ws"
    and r: "for_each (visit v) ws (p, n) = Inr (p', n')"
    by (auto simp: expand_def split: sum.splits)
  from g have "(v, ws) \<in> set adj"
    by (auto simp: dict_get_def split: option.splits dest: map_of_SomeD)
  then have "set ws \<subseteq> targets adj"
    by (auto simp: targets_def)
  with for_each_visit_grows [OF r] show ?thesis by auto
qed

lemma level_grows:
  assumes "for_each (expand adj) vs (p, n) = Inr (p', n')"
  shows "keys p \<subseteq> keys p' \<and> set n' \<subseteq> set n \<union> ((targets adj \<inter> keys p') - keys p)"
  using assms
proof (induction vs arbitrary: p n)
  case Nil
  then show ?case by simp
next
  case (Cons v vs)
  then obtain p1 n1 where e: "expand adj v (p, n) = Inr (p1, n1)"
    and r: "for_each (expand adj) vs (p1, n1) = Inr (p', n')"
    by (auto split: sum.splits)
  from expand_grows [OF e] Cons.IH [OF r] show ?case by auto
qed

function shortest_loop :: "(int \<times> int list) list \<Rightarrow> int list \<Rightarrow> (int \<times> int list) list
    \<Rightarrow> error + (int \<times> int list) list" where
  "shortest_loop adj nextlevel paths =
     (if nextlevel = [] then Inr paths
      else
        (case for_each (expand adj) nextlevel (paths, []) of
           Inl e \<Rightarrow> Inl e
         | Inr (paths', nextlevel') \<Rightarrow> shortest_loop adj nextlevel' paths'))"
  by pat_completeness auto
termination
proof (relation "(\<lambda>(adj, nl, paths). card (targets adj - keys paths))
                   <*mlex*> measure (\<lambda>(adj, nl, paths). length nl)")
  show "wf ((\<lambda>(adj, nl, paths). card (targets adj - keys paths))
              <*mlex*> measure (\<lambda>(adj, nl, paths). length nl))"
    by (simp add: wf_mlex)
next
  fix adj :: "(int \<times> int list) list" and nextlevel :: "int list"
    and paths :: "(int \<times> int list) list" and x2 p' n'
  assume ne: "nextlevel \<noteq> []"
    and run: "for_each (expand adj) nextlevel (paths, []) = Inr x2"
    and x2: "(p', n') = x2"
  from run x2 have "for_each (expand adj) nextlevel (paths, []) = Inr (p', n')" by simp
  from level_grows [OF this]
  have sub: "keys paths \<subseteq> keys p'" and new: "set n' \<subseteq> (targets adj \<inter> keys p') - keys paths"
    by auto
  have fin: "finite (targets adj - keys paths)" by (simp add: targets_def)
  show "((adj, n', p'), (adj, nextlevel, paths))
        \<in> (\<lambda>(adj, nl, paths). card (targets adj - keys paths))
             <*mlex*> measure (\<lambda>(adj, nl, paths). length nl)"
  proof (cases "n' = []")
    case True
    have "card (targets adj - keys p') \<le> card (targets adj - keys paths)"
      using sub fin by (intro card_mono) auto
    with True ne show ?thesis by (auto intro: mlex_leq)
  next
    case False
    then obtain w where w: "w \<in> set n'" by (cases n') auto
    with new have "w \<in> targets adj - keys paths" and "w \<notin> targets adj - keys p'" by auto
    with sub have "targets adj - keys p' \<subset> targets adj - keys paths" by auto
    with fin have "card (targets adj - keys p') < card (targets adj - keys paths)"
      by (rule psubset_card_mono)
    then show ?thesis by (auto intro: mlex_less)
  qed
qed

declare shortest_loop.simps [simp del]

definition single_source_shortest_path :: "graph \<Rightarrow> int \<Rightarrow> error + (int \<times> int list) list" where
  "single_source_shortest_path g source =
     shortest_loop (g_adj g) [source] [(source, [source])]"

subsection \<open>\<open>prepare_bonds_old\<close>\<close>

type_synonym bond_2 = "nat \<times> nat \<times> real \<times> real"
type_synonym bond_3 = "nat \<times> nat \<times> nat \<times> real \<times> real"

text \<open>\<open>np.radians\<close>, on the reals.\<close>

definition radians :: "real \<Rightarrow> real" where
  "radians x = x * pi / 180"

text \<open>\<open>bond_graph.nodes()[n]["name"]\<close> and \<open>["local_index"]\<close>, read together.\<close>

definition node_attr :: "graph \<Rightarrow> int \<Rightarrow> error + string \<times> nat" where
  "node_attr g n =
     (case map_of (g_node g) n of
        None \<Rightarrow> Inl KeyError
      | Some None \<Rightarrow> Inl KeyError
      | Some (Some a) \<Rightarrow> Inr a)"

text \<open>The loop \<open>for b in config.bonds\<close> for one pair of nodes.\<close>

fun scan_bonds :: "Bond list \<Rightarrow> string \<times> nat \<Rightarrow> string \<times> nat \<Rightarrow> bond_2 list \<Rightarrow> bond_2 list" where
  "scan_bonds [] ai aj bonds_2 = bonds_2"
| "scan_bonds (b # bs) ai aj bonds_2 =
     (let name_i = fst ai; name_j = fst aj;
          match_forward = (name_i = atom_1 b \<and> name_j = atom_2 b);
          match_backward = (name_j = atom_2 b \<and> name_i = atom_1 b)
      in if match_forward \<or> match_backward
         then scan_bonds bs ai aj (bonds_2 @ [(snd ai, snd aj, equilibrium b, strength b)])
         else scan_bonds bs ai aj bonds_2)"

text \<open>The loop \<open>for a in config.angle_bonds\<close> for one triple of nodes.\<close>

fun scan_angles :: "Angle list \<Rightarrow> string \<times> nat \<Rightarrow> string \<times> nat \<Rightarrow> string \<times> nat
    \<Rightarrow> bond_3 list \<Rightarrow> bond_3 list" where
  "scan_angles [] ai amid aj bonds_3 = bonds_3"
| "scan_angles (a # as) ai amid aj bonds_3 =
     (let name_i = fst ai; name_mid = fst amid; name_j = fst aj;
          match_forward = (name_i = atom_1 a \<and> name_mid = atom_2 a \<and> name_j = atom_3 a);
          match_backward = (name_i = atom_3 a \<and> name_mid = atom_2 a \<and> name_j = atom_1 a)
      in if match_forward \<or> match_backward
         then scan_angles as ai amid aj
                (bonds_3 @ [(snd ai, snd amid, snd aj, radians (equilibrium a), strength a)])
         else scan_angles as ai amid aj bonds_3)"

text \<open>The body of \<open>for j, path in connected.items()\<close>, for the source node \<open>i\<close>.\<close>

definition connected_item :: "'c Config_scheme \<Rightarrow> graph \<Rightarrow> int \<Rightarrow> int \<times> int list
    \<Rightarrow> bond_2 list \<times> bond_3 list \<Rightarrow> error + bond_2 list \<times> bond_3 list" where
  "connected_item config g i jp s =
     (case jp of (j, path) \<Rightarrow>
      case s of (bonds_2, bonds_3) \<Rightarrow>
      (case
         (if length path = 2 \<and> last path > hd path then
            (case node_attr g i of
               Inl e \<Rightarrow> Inl e
             | Inr ai \<Rightarrow>
                 (case node_attr g j of
                    Inl e \<Rightarrow> Inl e
                  | Inr aj \<Rightarrow> Inr (scan_bonds (bonds config) ai aj bonds_2)))
          else Inr bonds_2) of
         Inl e \<Rightarrow> Inl e
       | Inr bonds_2 \<Rightarrow>
           (if length path = 3 \<and> last path > hd path then
              (case node_attr g i of
                 Inl e \<Rightarrow> Inl e
               | Inr ai \<Rightarrow>
                   (case node_attr g (path ! 1) of
                      Inl e \<Rightarrow> Inl e
                    | Inr amid \<Rightarrow>
                        (case node_attr g j of
                           Inl e \<Rightarrow> Inl e
                         | Inr aj \<Rightarrow>
                             Inr (bonds_2, scan_angles (angle_bonds config) ai amid aj bonds_3))))
            else Inr (bonds_2, bonds_3))))"

text \<open>
  The body of \<open>for c in connectivity\<close>: \<open>all_pairs_shortest_path\<close> yields, for each
  node of the graph in turn, the node and its shortest paths.
\<close>

definition connectivity_item :: "'c Config_scheme \<Rightarrow> graph \<Rightarrow> int
    \<Rightarrow> bond_2 list \<times> bond_3 list \<Rightarrow> error + bond_2 list \<times> bond_3 list" where
  "connectivity_item config g i s =
     (case single_source_shortest_path g i of
        Inl e \<Rightarrow> Inl e
      | Inr paths \<Rightarrow> for_each (connected_item config g i) paths s)"

text \<open>
  The body of \<open>for local_index, global_index in enumerate(indices)\<close>. The argument
  \<open>bonds\<close> of \<open>prepare_bonds_old\<close> is \<open>bonds_arr\<close> here; it is \<open>None\<close> when the
  caller passes Python's \<open>None\<close>, which cannot be subscripted.
\<close>

definition graph_item :: "int \<Rightarrow> int list \<Rightarrow> string list \<Rightarrow> int list list option
    \<Rightarrow> nat \<times> int \<Rightarrow> graph \<Rightarrow> error + graph" where
  "graph_item mol molecules names bonds_arr lg bond_graph =
     (case lg of (local_index, global_index) \<Rightarrow>
      case arr_get molecules local_index of
        Inl e \<Rightarrow> Inl e
      | Inr m \<Rightarrow>
          if m \<noteq> mol then Inr bond_graph
          else
            (case arr_get names local_index of
               Inl e \<Rightarrow> Inl e
             | Inr name \<Rightarrow>
                 (let bond_graph = add_node global_index name local_index bond_graph in
                  case bonds_arr of
                    None \<Rightarrow> Inl TypeError
                  | Some rows \<Rightarrow>
                      (case arr_get rows local_index of
                         Inl e \<Rightarrow> Inl e
                       | Inr row \<Rightarrow>
                           Inr (fold (\<lambda>bond. add_edge global_index bond)
                                  (filter (\<lambda>b. b \<noteq> - 1) row) bond_graph)))))"

text \<open>The body of \<open>for mol in different_molecules\<close>.\<close>

definition molecule_item :: "int list \<Rightarrow> string list \<Rightarrow> int list list option \<Rightarrow> int list
    \<Rightarrow> 'c Config_scheme \<Rightarrow> int \<Rightarrow> bond_2 list \<times> bond_3 list \<Rightarrow> error + bond_2 list \<times> bond_3 list" where
  "molecule_item molecules names bonds_arr indices config mol s =
     (case for_each (graph_item mol molecules names bonds_arr)
             (zip [0..<length indices] indices) Graph of
        Inl e \<Rightarrow> Inl e
      | Inr bond_graph \<Rightarrow>
          for_each (connectivity_item config bond_graph) (map fst (g_adj bond_graph)) s)"

text \<open>\<open>np.unique\<close>: the distinct values, ascending.\<close>

definition unique :: "int list \<Rightarrow> int list" where
  "unique xs = sort (remdups xs)"

definition prepare_bonds_old :: "int list \<Rightarrow> string list \<Rightarrow> int list list option \<Rightarrow> int list
    \<Rightarrow> 'c Config_scheme \<Rightarrow> error + bond_2 list \<times> bond_3 list" where
  "prepare_bonds_old molecules names bonds_arr indices config =
     for_each (molecule_item molecules names bonds_arr indices config) (unique molecules) ([], [])"

subsection \<open>Fixtures (test/conftest.py)\<close>

text \<open>
  \<open>three_atoms\<close>: \<open>bonds = np.empty(shape=(3, 3), dtype=int).fill(-1)\<close> binds the
  result of \<open>fill\<close>, which is \<open>None\<close>. The fixture defines no bond or angle
  definitions.
\<close>

definition no_config :: Config where
  "no_config = \<lparr>bonds = [], angle_bonds = []\<rparr>"

definition three_atoms_indices :: "int list" where
  "three_atoms_indices = [0, 1, 2]"

definition three_atoms_molecules :: "int list" where
  "three_atoms_molecules = [0, 1, 2]"

definition three_atoms_bonds :: "int list list option" where
  "three_atoms_bonds = None"

definition three_atoms_names :: "string list" where
  "three_atoms_names = [''A'', ''B'', ''C'']"

text \<open>\<open>dppc_single\<close>, with \<open>CONF['bond_2']\<close> and \<open>CONF['bond_3']\<close> as the configuration.\<close>

definition dppc_indices :: "int list" where
  "dppc_indices = [0, 1, 2, 3, 4, 5, 6, 7, 8, 9, 10, 11]"

definition dppc_molecules :: "int list" where
  "dppc_molecules = [0, 0, 0, 0, 0, 0, 0, 0, 0, 0, 0, 0]"

definition dppc_bonds :: "int list list option" where
  "dppc_bonds = Some
     [[1, - 1, - 1],
      [0, 2, - 1],
      [1, 3, 4],
      [2, 8, - 1],
      [2, 5, - 1],
      [4, 6, - 1],
      [5, 7, - 1],
      [6, - 1, - 1],
      [3, 9, - 1],
      [8, 10, - 1],
      [9, 11, - 1],
      [10, - 1, - 1]]"

definition dppc_names :: "string list" where
  "dppc_names = [''N'', ''P'', ''G'', ''G'', ''C'', ''C'', ''C'', ''C'', ''C'', ''C'', ''C'', ''C'']"

definition mk_bond :: "string \<Rightarrow> string \<Rightarrow> real \<Rightarrow> real \<Rightarrow> Bond" where
  "mk_bond a b e k = \<lparr>atom_1 = a, atom_2 = b, equilibrium = e, strength = k\<rparr>"

definition mk_angle :: "string \<Rightarrow> string \<Rightarrow> string \<Rightarrow> real \<Rightarrow> real \<Rightarrow> Angle" where
  "mk_angle a b c e k = \<lparr>atom_1 = a, atom_2 = b, equilibrium = e, strength = k, atom_3 = c\<rparr>"

definition dppc_bond_2 :: "Bond list" where
  "dppc_bond_2 =
     [mk_bond ''N'' ''P'' 0.47 1250,
      mk_bond ''P'' ''G'' 0.47 1250,
      mk_bond ''G'' ''G'' 0.37 1250,
      mk_bond ''G'' ''C'' 0.47 1250,
      mk_bond ''C'' ''C'' 0.47 1250]"

definition dppc_bond_3 :: "Angle list" where
  "dppc_bond_3 =
     [mk_angle ''P'' ''G'' ''G'' 120 25,
      mk_angle ''P'' ''G'' ''C'' 180 25,
      mk_angle ''G'' ''C'' ''C'' 180 25,
      mk_angle ''C'' ''C'' ''C'' 180 25]"

definition dppc_config :: Config where
  "dppc_config = \<lparr>bonds = dppc_bond_2, angle_bonds = dppc_bond_3\<rparr>"

text \<open>
  Graphs and a configuration for the examples: the graph of two bonded particles with
  global indices 0 and 1, the graph \<open>prepare_bonds_old\<close> builds for \<open>dppc_single\<close>,
  a chain of three particles, and a configuration in which two bond definitions and
  two angle definitions match the same names.
\<close>

definition pair_graph :: "string \<Rightarrow> string \<Rightarrow> graph" where
  "pair_graph n0 n1 =
     \<lparr>g_node = [(0, Some (n0, 0)), (1, Some (n1, 1))], g_adj = [(0, [1]), (1, [0])]\<rparr>"

definition dppc_graph :: graph where
  "dppc_graph =
     \<lparr>g_node =
        [(0, Some (''N'', 0)), (1, Some (''P'', 1)), (2, Some (''G'', 2)),
         (3, Some (''G'', 3)), (4, Some (''C'', 4)), (8, Some (''C'', 8)),
         (5, Some (''C'', 5)), (6, Some (''C'', 6)), (7, Some (''C'', 7)),
         (9, Some (''C'', 9)), (10, Some (''C'', 10)), (11, Some (''C'', 11))],
      g_adj =
        [(0, [1]), (1, [0, 2]), (2, [1, 3, 4]), (3, [2, 8]), (4, [2, 5]),
         (8, [3, 9]), (5, [4, 6]), (6, [5, 7]), (7, [6]), (9, [8, 10]),
         (10, [9, 11]), (11, [10])]\<rparr>"

definition chain_graph :: graph where
  "chain_graph =
     \<lparr>g_node = [(0, Some (''N'', 0)), (1, Some (''P'', 1)), (2, Some (''G'', 2))],
      g_adj = [(0, [1]), (1, [0, 2]), (2, [1])]\<rparr>"

definition twice_config :: Config where
  "twice_config = no_config
     \<lparr>bonds := [mk_bond ''N'' ''P'' 0.47 1250, mk_bond ''N'' ''P'' 0.5 1000],
      angle_bonds := [mk_angle ''N'' ''P'' ''G'' 120 25, mk_angle ''G'' ''P'' ''N'' 100 30]\<rparr>"


subsection \<open>The pairs and triples that the shortest-path search reports\<close>

text \<open>
  \<open>prepare_bonds_old\<close> looks at every shortest path that
  \<open>all_pairs_shortest_path\<close> reports, molecule by molecule and source node by
  source node. A path of two nodes whose last index exceeds its first is a directly
  bonded pair, a path of three such nodes is an angle triple; each is listed here with
  the attributes (name, local index) of its nodes, in the order in which the loops
  meet them.
\<close>

definition the_attr :: "graph \<Rightarrow> int \<Rightarrow> string \<times> nat" where
  "the_attr g n = projr (node_attr g n)"

definition item_pairs :: "graph \<Rightarrow> int \<Rightarrow> int \<times> int list
    \<Rightarrow> ((string \<times> nat) \<times> (string \<times> nat)) list" where
  "item_pairs g i jp =
     (case jp of (j, path) \<Rightarrow>
        if length path = 2 \<and> last path > hd path then [(the_attr g i, the_attr g j)] else [])"

definition item_triples :: "graph \<Rightarrow> int \<Rightarrow> int \<times> int list
    \<Rightarrow> ((string \<times> nat) \<times> (string \<times> nat) \<times> (string \<times> nat)) list" where
  "item_triples g i jp =
     (case jp of (j, path) \<Rightarrow>
        if length path = 3 \<and> last path > hd path
        then [(the_attr g i, the_attr g (path ! 1), the_attr g j)] else [])"

definition shortest_paths :: "graph \<Rightarrow> int \<Rightarrow> (int \<times> int list) list" where
  "shortest_paths g i = projr (single_source_shortest_path g i)"

definition molecule_graph :: "int list \<Rightarrow> string list \<Rightarrow> int list list option \<Rightarrow> int list
    \<Rightarrow> int \<Rightarrow> graph" where
  "molecule_graph molecules names bonds_arr indices mol =
     projr (for_each (graph_item mol molecules names bonds_arr)
              (zip [0..<length indices] indices) Graph)"

definition graph_pairs :: "graph \<Rightarrow> ((string \<times> nat) \<times> (string \<times> nat)) list" where
  "graph_pairs g =
     concat (map (\<lambda>i. concat (map (item_pairs g i) (shortest_paths g i))) (map fst (g_adj g)))"

definition graph_triples :: "graph
    \<Rightarrow> ((string \<times> nat) \<times> (string \<times> nat) \<times> (string \<times> nat)) list" where
  "graph_triples g =
     concat (map (\<lambda>i. concat (map (item_triples g i) (shortest_paths g i))) (map fst (g_adj g)))"

definition bonded_pairs :: "int list \<Rightarrow> string list \<Rightarrow> int list list option \<Rightarrow> int list
    \<Rightarrow> ((string \<times> nat) \<times> (string \<times> nat)) list" where
  "bonded_pairs molecules names bonds_arr indices =
     concat (map (\<lambda>mol. graph_pairs (molecule_graph molecules names bonds_arr indices mol))
               (unique molecules))"

definition angle_triples :: "int list \<Rightarrow> string list \<Rightarrow> int list list option \<Rightarrow> int list
    \<Rightarrow> ((string \<times> nat) \<times> (string \<times> nat) \<times> (string \<times> nat)) list" where
  "angle_triples molecules names bonds_arr indices =
     concat (map (\<lambda>mol. graph_triples (molecule_graph molecules names bonds_arr indices mol))
               (unique molecules))"

section \<open>Two-body bond forces (hymd/force.py)\<close>

text \<open>
  \<open>compute_bond_forces__plain\<close> is embedded. \<open>compute_bond_forces__numba\<close> is the
  same loop with the three dimensions written out, compiled by numba with
  \<open>fastmath\<close>: its arithmetic and its behaviour on a zero box length or on an index out
  of range are those of the compiled code, and it is not embedded.
\<close>

text \<open>
  A two-dimensional array is a list of rows of one length. \<open>f_bonds.fill(0.0)\<close>
  keeps the shape.
\<close>

definition fill_zero :: "fl list list \<Rightarrow> fl list list" where
  "fill_zero f = map (map (\<lambda>x. Some 0)) f"

text \<open>
  The minimum-image statement for one dimension:
  \<open>rij[dim] -= box_size[dim] * np.around(rij[dim] / box_size[dim])\<close>.
\<close>

definition minimum_image :: "arith \<Rightarrow> real \<Rightarrow> fl \<Rightarrow> fl" where
  "minimum_image ar l x = fl_sub ar x (fl_mul ar (Some l) (fl_around (fl_div ar x (Some l))))"

definition wrap_dim :: "arith \<Rightarrow> real list \<Rightarrow> nat \<Rightarrow> fl list \<Rightarrow> error + fl list" where
  "wrap_dim ar box_size d rij =
     (if d < length rij \<and> d < length box_size
      then Inr (rij[d := minimum_image ar (box_size ! d) (rij ! d)])
      else Inl IndexError)"

text \<open>
  \<open>f_bonds[i, :] -= v\<close> and \<open>f_bonds[i, :] += v\<close>: \<open>v\<close> must have the length of the
  row, or length 1 (it is then broadcast).
\<close>

definition row_apply :: "(fl \<Rightarrow> fl \<Rightarrow> fl) \<Rightarrow> nat \<Rightarrow> fl list \<Rightarrow> fl list list
    \<Rightarrow> error + fl list list" where
  "row_apply f i v f_bonds =
     (if i < length f_bonds then
        (if length v = length (f_bonds ! i) then Inr (f_bonds[i := map2 f (f_bonds ! i) v])
         else if length v = 1 then Inr (f_bonds[i := map (\<lambda>a. f a (v ! 0)) (f_bonds ! i)])
         else Inl ValueError)
      else Inl IndexError)"

text \<open>
  The body of the loop \<open>for i, j, r0, k in bonds_2\<close> of \<open>compute_bond_forces__plain\<close>.
  The state is the force array and the energy.
\<close>

definition bond_force :: "arith \<Rightarrow> real list \<Rightarrow> real list list
    \<Rightarrow> nat \<times> nat \<times> real \<times> real \<Rightarrow> fl list list \<times> fl \<Rightarrow> error + fl list list \<times> fl" where
  "bond_force ar box_size r b s =
     (case b of (i, j, r0, k) \<Rightarrow>
      case s of (f_bonds, energy) \<Rightarrow>
      case arr_get r i of
        Inl e \<Rightarrow> Inl e
      | Inr ri \<Rightarrow>
      case arr_get r j of
        Inl e \<Rightarrow> Inl e
      | Inr rj \<Rightarrow>
      case for_each (wrap_dim ar box_size) [0..<length (map2 (\<lambda>a b. rnd ar (a - b)) rj ri)]
             (map2 (\<lambda>a b. rnd ar (a - b)) rj ri) of
        Inl e \<Rightarrow> Inl e
      | Inr rij \<Rightarrow>
      (let dr = np_norm ar rij;
           df = fl_mul ar (Some (- k)) (fl_sub ar dr (Some r0));
           f_bond_vector = map (\<lambda>x. fl_div ar (fl_mul ar df x) dr) rij
       in case row_apply (fl_sub ar) i f_bond_vector f_bonds of
            Inl e \<Rightarrow> Inl e
          | Inr f_bonds \<Rightarrow>
          case row_apply (fl_add ar) j f_bond_vector f_bonds of
            Inl e \<Rightarrow> Inl e
          | Inr f_bonds \<Rightarrow>
              Inr (f_bonds,
                   fl_add ar energy
                     (fl_mul ar (fl_mul ar (Some 0.5) (Some k)) (fl_sq ar (fl_sub ar dr (Some r0)))))))"

definition compute_bond_forces__plain :: "arith \<Rightarrow> fl list list \<Rightarrow> real list list
    \<Rightarrow> (nat \<times> nat \<times> real \<times> real) list \<Rightarrow> real list \<Rightarrow> error + fl list list \<times> fl" where
  "compute_bond_forces__plain ar f_bonds r bonds_2 box_size =
     for_each (bond_force ar box_size r) bonds_2 (fill_zero f_bonds, Some 0)"

text \<open>
  Moving atom \<open>a\<close> by \<open>s\<close> box lengths along dimension \<open>d\<close>: the positions that are
  handed to the second evaluation.
\<close>

definition translate :: "real list list \<Rightarrow> real list \<Rightarrow> nat \<Rightarrow> nat \<Rightarrow> real \<Rightarrow> real list list" where
  "translate r box_size a d s = r[a := (r ! a)[d := r ! a ! d + s * box_size ! d]]"

text \<open>
  Two vectors that agree except at dimension \<open>d\<close>, where their components are related
  by \<open>P\<close>; used to compare the run on the translated positions with the run on the
  original ones.
\<close>

definition same_but :: "nat \<Rightarrow> (fl \<Rightarrow> fl \<Rightarrow> bool) \<Rightarrow> fl list \<Rightarrow> fl list \<Rightarrow> bool" where
  "same_but d P v w =
     (length v = length w \<and> (\<forall>m < length v. m \<noteq> d \<longrightarrow> v ! m = w ! m)
      \<and> (d < length v \<longrightarrow> P (v ! d) (w ! d)))"







section \<open>The thermostat (hymd/thermostat.py)\<close>

subsection \<open>Configuration, processes and collective communication\<close>

text \<open>The further fields of the configuration object that \<open>csvr_thermostat\<close> uses.\<close>

record Thermostat_Config = Config +
  mass :: real
  time_step :: real
  respa_inner :: real
  tau :: real
  target_temperature :: real
  thermostat_coupling_groups :: "string list list"
  unique_names :: "string list"
  thermostat_work :: fl

text \<open>
  Every MPI process runs \<open>csvr_thermostat\<close> on its own particles, and the collective
  calls couple the runs: \<open>allreduce\<close> hands every process the sum over all processes,
  \<open>bcast\<close> hands every process the value of rank 0. The embedding runs all processes
  in step: the list of processes is in rank order, each with its own \<open>velocity\<close> and
  \<open>names\<close> arrays, and the configuration holds the same values on every process, so
  it is kept once. \<open>D\<close> is the number of columns of the velocity arrays.
\<close>

record process =
  proc_velocity :: "fl list list"
  proc_names :: "string list"

text \<open>
  \<open>np.where(np.logical_or.reduce(list(names == np.string_(t) for t in group)))\<close>: the
  indices of the particles whose name is in the group.
\<close>

definition ind :: "string list \<Rightarrow> string list \<Rightarrow> nat list" where
  "ind nms grp = filter (\<lambda>k. nms ! k \<in> set grp) [0..<length nms]"

text \<open>\<open>velocity[ind]\<close> as a value, and the assignment \<open>velocity[ind] = rows\<close>.\<close>

fun gather :: "'a list \<Rightarrow> nat list \<Rightarrow> error + 'a list" where
  "gather xs [] = Inr []"
| "gather xs (k # ks) =
     (if k < length xs
      then (case gather xs ks of Inl e \<Rightarrow> Inl e | Inr ys \<Rightarrow> Inr (xs ! k # ys))
      else Inl IndexError)"

fun scatter :: "'a list \<Rightarrow> nat list \<Rightarrow> 'a list \<Rightarrow> 'a list" where
  "scatter xs (k # ks) (y # ys) = scatter (xs[k := y]) ks ys"
| "scatter xs ks ys = xs"

text \<open>\<open>np.sum(rows, axis=0)\<close> for rows of \<open>D\<close> columns.\<close>

definition col_sum :: "arith \<Rightarrow> nat \<Rightarrow> fl list list \<Rightarrow> fl list" where
  "col_sum ar D rows = map (\<lambda>c. np_sum_axis0 ar (map (\<lambda>row. row ! c) rows)) [0..<D]"

subsection \<open>The quantities of one coupling group\<close>

text \<open>
  \<open>sel\<close> holds \<open>velocity[ind]\<close> of every process, \<open>n\<close> is \<open>group_n_particles\<close>.
  \<open>comm.allreduce\<close> adds the vectors of the processes component by component.
\<close>

definition group_n_particles :: "process list \<Rightarrow> string list \<Rightarrow> int" where
  "group_n_particles procs grp =
     sum_list (map (\<lambda>p. int (length (ind (proc_names p) grp))) procs)"

definition com_velocity :: "arith \<Rightarrow> nat \<Rightarrow> fl list list list \<Rightarrow> fl list" where
  "com_velocity ar D sel =
     map (\<lambda>c. allreduce_sum ar (map (\<lambda>rows. col_sum ar D rows ! c) sel)) [0..<D]"

text \<open>\<open>com_velocity / group_n_particles\<close>\<close>

definition com_mean :: "arith \<Rightarrow> nat \<Rightarrow> fl list list list \<Rightarrow> int \<Rightarrow> fl list" where
  "com_mean ar D sel n = map (\<lambda>x. fl_div ar x (Some (of_int n))) (com_velocity ar D sel)"

definition velocity_clean :: "arith \<Rightarrow> fl list \<Rightarrow> fl list list \<Rightarrow> fl list list" where
  "velocity_clean ar m rows = map (\<lambda>row. map2 (fl_sub ar) row m) rows"

text \<open>\<open>K = comm.allreduce(0.5 * config.mass * np.sum(velocity_clean[...]**2))\<close>\<close>

definition kinetic :: "arith \<Rightarrow> real \<Rightarrow> fl list list list \<Rightarrow> fl" where
  "kinetic ar m cleans =
     allreduce_sum ar
       (map (\<lambda>rows. fl_mul ar (fl_mul ar (Some 0.5) (Some m))
                      (np_sum ar (map (fl_sq ar) (concat rows)))) cleans)"

text \<open>
  \<open>K_target = ((3 / 2) * (2.479 / 298.0) * group_n_particles * config.target_temperature)\<close>;
  the decimal literal \<open>2.479\<close> is itself rounded to a float.
\<close>

definition K_target :: "arith \<Rightarrow> int \<Rightarrow> real \<Rightarrow> fl" where
  "K_target ar n T =
     fl_mul ar
       (fl_mul ar (fl_mul ar (Some (3 / 2)) (fl_div ar (rnd ar 2.479) (Some 298.0)))
          (Some (of_int n)))
       (Some T)"

definition N_f :: "int \<Rightarrow> int" where
  "N_f n = 3 * n"

text \<open>
  \<open>c = np.exp(-(config.time_step * config.respa_inner) / config.tau)\<close>: the quotient
  is one of Python floats and raises when \<open>tau\<close> is zero.
\<close>

definition decay :: "arith \<Rightarrow> 'c Thermostat_Config_scheme \<Rightarrow> error + fl" where
  "decay ar config =
     (if tau config = 0 then Inl ZeroDivisionError
      else Inr (np_exp ar
                  (fl_div ar
                     (map_option uminus
                        (fl_mul ar (Some (time_step config)) (Some (respa_inner config))))
                     (Some (tau config)))))"

text \<open>
  \<open>alpha2 = (c + (1 - c) * (SNf + R**2) * K_target / (N_f * K)
            + 2 * R * np.sqrt(c * (1 - c) * K_target / (N_f * K)))\<close>
\<close>

definition alpha2 :: "arith \<Rightarrow> fl \<Rightarrow> real \<Rightarrow> real \<Rightarrow> fl \<Rightarrow> int \<Rightarrow> fl \<Rightarrow> fl" where
  "alpha2 ar c R SNf Kt Nf K =
     fl_add ar
       (fl_add ar c
          (fl_div ar
             (fl_mul ar (fl_mul ar (fl_sub ar (Some 1) c) (fl_add ar (Some SNf) (py_sq ar R))) Kt)
             (fl_mul ar (Some (of_int Nf)) K)))
       (fl_mul ar (fl_mul ar (Some 2) (Some R))
          (fl_sqrt ar
             (fl_div ar (fl_mul ar (fl_mul ar c (fl_sub ar (Some 1) c)) Kt)
                (fl_mul ar (Some (of_int Nf)) K))))"

subsection \<open>\<open>csvr_thermostat\<close>\<close>

text \<open>
  The body of the loop over the coupling groups. \<open>random_gaussian\<close> and
  \<open>random_chi_squared\<close> are the two generator arguments; they thread a generator
  state \<open>g\<close>, and only rank 0 calls them.
\<close>

definition thermostat_group :: "arith \<Rightarrow> nat \<Rightarrow> ('g \<Rightarrow> real \<times> 'g)
    \<Rightarrow> (int \<Rightarrow> 'g \<Rightarrow> error + real \<times> 'g)
    \<Rightarrow> string list \<Rightarrow> process list \<times> 'c Thermostat_Config_scheme \<times> 'g
    \<Rightarrow> error + process list \<times> 'c Thermostat_Config_scheme \<times> 'g" where
  "thermostat_group ar D random_gaussian random_chi_squared grp st =
     (case st of (procs, config, g) \<Rightarrow>
      case for_each (\<lambda>p sel.
                case gather (proc_velocity p) (ind (proc_names p) grp) of
                  Inl e \<Rightarrow> Inl e
                | Inr rows \<Rightarrow> Inr (sel @ [rows])) procs [] of
        Inl e \<Rightarrow> Inl e
      | Inr sel \<Rightarrow>
      (let n = group_n_particles procs grp;
           cleans = map (velocity_clean ar (com_mean ar D sel n)) sel;
           K = kinetic ar (mass config) cleans;
           Kt = K_target ar n (target_temperature config);
           Nf = N_f n
       in case decay ar config of
            Inl e \<Rightarrow> Inl e
          | Inr c \<Rightarrow>
          (case random_gaussian g of (R, g) \<Rightarrow>
           case random_chi_squared (Nf - 1) g of
             Inl e \<Rightarrow> Inl e
           | Inr (SNf, g) \<Rightarrow>
           (let dK = (if n > 0 then fl_mul ar K (fl_sub ar (alpha2 ar c R SNf Kt Nf K) (Some 1))
                      else Some 0);
                cleans = (if n > 0
                          then map (map (map (\<lambda>x. fl_mul ar x
                                                     (fl_sqrt ar (alpha2 ar c R SNf Kt Nf K)))))
                                 cleans
                          else cleans);
                config = config\<lparr>thermostat_work := fl_add ar (thermostat_work config) dK\<rparr>;
                procs = map2 (\<lambda>p rows.
                          p\<lparr>proc_velocity :=
                              scatter (proc_velocity p) (ind (proc_names p) grp)
                                (map (\<lambda>row. map2 (fl_add ar) row (com_mean ar D sel n)) rows)\<rparr>)
                          procs cleans
            in Inr (procs, config, g)))))"

definition csvr_thermostat :: "arith \<Rightarrow> nat \<Rightarrow> process list \<Rightarrow> 'c Thermostat_Config_scheme
    \<Rightarrow> ('g \<Rightarrow> real \<times> 'g) \<Rightarrow> (int \<Rightarrow> 'g \<Rightarrow> error + real \<times> 'g) \<Rightarrow> 'g
    \<Rightarrow> error + process list \<times> 'c Thermostat_Config_scheme \<times> 'g" where
  "csvr_thermostat ar D procs config random_gaussian random_chi_squared g =
     (let config =
        (if \<not> list_ex (\<lambda>grp. grp \<noteq> []) (thermostat_coupling_groups config)
         then config\<lparr>thermostat_coupling_groups := [unique_names config]\<rparr>
         else config)
      in for_each (thermostat_group ar D random_gaussian random_chi_squared)
           (thermostat_coupling_groups config) (procs, config, g))"

subsection \<open>Random numbers\<close>

text \<open>
  The default generators draw from numpy's global generator, modelled by the sequence of
  numbers it is going to deliver and a position in it. \<open>np.random.chisquare\<close> raises
  \<open>ValueError\<close> unless its degrees of freedom are positive.
\<close>

record np_random =
  draws :: "nat \<Rightarrow> real"
  pos :: nat

definition default_random_gaussian :: "np_random \<Rightarrow> real \<times> np_random" where
  "default_random_gaussian g = (draws g (pos g), g\<lparr>pos := pos g + 1\<rparr>)"

definition default_random_chi_squared :: "int \<Rightarrow> np_random \<Rightarrow> error + real \<times> np_random" where
  "default_random_chi_squared M g =
     (if M \<le> 0 then Inl ValueError else Inr (draws g (pos g), g\<lparr>pos := pos g + 1\<rparr>))"

text \<open>
  Deterministic stubs with fixed values \<open>R\<close> and \<open>SNf\<close>; the state of the stubs is
  the list of the degrees of freedom that were asked for.
\<close>

definition stub_gaussian :: "real \<Rightarrow> int list \<Rightarrow> real \<times> int list" where
  "stub_gaussian R g = (R, g)"

definition stub_chi_squared :: "real \<Rightarrow> int \<Rightarrow> int list \<Rightarrow> error + real \<times> int list" where
  "stub_chi_squared SNf M g = Inr (SNf, g @ [M])"

text \<open>The scale factor as the specification words it, over the real numbers.\<close>

definition spec_alpha2 :: "real \<Rightarrow> real \<Rightarrow> real \<Rightarrow> real \<Rightarrow> real \<Rightarrow> real \<Rightarrow> real" where
  "spec_alpha2 c R SNf Kt Nf K =
     c + (1 - c) * (SNf + R\<^sup>2) * Kt / (Nf * K) + 2 * R * sqrt (c * (1 - c) * Kt / (Nf * K))"

subsection \<open>The quantities of a group, from the state before the call\<close>

text \<open>
  \<open>velocity[ind]\<close> of every process; the centre-of-mass velocity of the group, the sum
  of the selected velocities over all processes divided by the number of selected
  particles; the kinetic energy \<open>K\<close> of the group after its centre-of-mass velocity is
  removed; the factor \<open>c\<close>; and \<open>alpha2\<close> for the values \<open>R\<close> and \<open>SNf\<close> of the
  generators.
\<close>

definition selected :: "process list \<Rightarrow> string list \<Rightarrow> fl list list list" where
  "selected procs grp =
     map (\<lambda>p. map (\<lambda>k. proc_velocity p ! k) (ind (proc_names p) grp)) procs"

definition group_com :: "arith \<Rightarrow> nat \<Rightarrow> process list \<Rightarrow> string list \<Rightarrow> fl list" where
  "group_com ar D procs grp = com_mean ar D (selected procs grp) (group_n_particles procs grp)"

definition group_K :: "arith \<Rightarrow> nat \<Rightarrow> process list \<Rightarrow> 'c Thermostat_Config_scheme
    \<Rightarrow> string list \<Rightarrow> fl" where
  "group_K ar D procs config grp =
     kinetic ar (mass config)
       (map (velocity_clean ar (group_com ar D procs grp)) (selected procs grp))"

definition group_c :: "arith \<Rightarrow> 'c Thermostat_Config_scheme \<Rightarrow> fl" where
  "group_c ar config =
     np_exp ar
       (fl_div ar
          (map_option uminus (fl_mul ar (Some (time_step config)) (Some (respa_inner config))))
          (Some (tau config)))"

definition group_alpha2 :: "arith \<Rightarrow> nat \<Rightarrow> process list \<Rightarrow> 'c Thermostat_Config_scheme
    \<Rightarrow> string list \<Rightarrow> real \<Rightarrow> real \<Rightarrow> fl" where
  "group_alpha2 ar D procs config grp R SNf =
     alpha2 ar (group_c ar config) R SNf
       (K_target ar (group_n_particles procs grp) (target_temperature config))
       (N_f (group_n_particles procs grp)) (group_K ar D procs config grp)"

text \<open>
  No index of a selected particle is out of range of the velocity array of its process;
  and the rows a group gets back: \<open>(row - m) * alpha + m\<close>.
\<close>

definition in_range :: "process list \<Rightarrow> string list \<Rightarrow> bool" where
  "in_range procs grp =
     list_all (\<lambda>p. list_all (\<lambda>k. k < length (proc_velocity p)) (ind (proc_names p) grp)) procs"

definition rescaled :: "arith \<Rightarrow> fl list \<Rightarrow> fl \<Rightarrow> fl list list \<Rightarrow> fl list list" where
  "rescaled ar m alpha rows =
     map (\<lambda>row. map2 (fl_add ar) (map (\<lambda>x. fl_mul ar x alpha) (map2 (fl_sub ar) row m)) m) rows"

text \<open>
  One process with two particles of type \<open>A\<close> moving against each other, one process
  with a single particle, and a configuration that couples the group \<open>A\<close>; the second
  configuration couples a type \<open>B\<close> that no particle has.
\<close>

definition two_particles :: "process list" where
  "two_particles =
     [\<lparr>proc_velocity = [[Some 1, Some 0, Some 0], [Some (- 1), Some 0, Some 0]],
       proc_names = [''A'', ''A'']\<rparr>]"

definition one_particle :: "process list" where
  "one_particle = [\<lparr>proc_velocity = [[Some 1, Some 2, Some 3]], proc_names = [''A'']\<rparr>]"

definition couple_A :: Thermostat_Config where
  "couple_A = \<lparr>bonds = [], angle_bonds = [], mass = 2, time_step = 1, respa_inner = 1, tau = 1,
     target_temperature = 298, thermostat_coupling_groups = [[''A'']], unique_names = [''A''],
     thermostat_work = Some 0\<rparr>"

definition couple_B :: Thermostat_Config where
  "couple_B = couple_A\<lparr>thermostat_coupling_groups := [[''B'']]\<rparr>"

definition fresh_random :: np_random where
  "fresh_random = \<lparr>draws = (\<lambda>i. 0), pos = 0\<rparr>"

section \<open>Properties of the arithmetic without rounding\<close>

lemma exact_fields:
  "rnd exact_arith x = Some x"
  "py_sq exact_arith x = Some (x * x)"
  "np_exp exact_arith a = map_option exp a"
  "np_sum_axis0 exact_arith = exact_sum"
  "np_sum exact_arith = exact_sum"
  "allreduce_sum exact_arith = exact_sum"
  by (simp_all add: exact_arith_def)

lemma exact_add [simp]: "fl_add exact_arith (Some x) (Some y) = Some (x + y)"
  by (simp add: fl_add_def exact_fields)

lemma exact_sub [simp]: "fl_sub exact_arith (Some x) (Some y) = Some (x - y)"
  by (simp add: fl_sub_def exact_fields)

lemma exact_mul [simp]: "fl_mul exact_arith (Some x) (Some y) = Some (x * y)"
  by (simp add: fl_mul_def exact_fields)

lemma exact_div [simp]:
  "fl_div exact_arith (Some x) (Some y) = (if y = 0 then None else Some (x / y))"
  by (simp add: fl_div_def exact_fields)

lemma exact_sqrt [simp]:
  "fl_sqrt exact_arith (Some x) = (if x < 0 then None else Some (sqrt x))"
  by (simp add: fl_sqrt_def exact_fields)

lemma exact_none [simp]:
  "fl_add exact_arith None b = None" "fl_add exact_arith a None = None"
  "fl_sub exact_arith None b = None" "fl_sub exact_arith a None = None"
  "fl_mul exact_arith None b = None" "fl_mul exact_arith a None = None"
  "fl_div exact_arith None b = None" "fl_div exact_arith a None = None"
  "fl_sqrt exact_arith None = None"
  by (simp_all add: fl_add_def fl_sub_def fl_mul_def fl_div_def fl_sqrt_def split: option.splits)

lemma exact_sum_simps [simp]:
  "exact_sum [] = Some 0"
  "exact_sum (None # xs) = None"
  "exact_sum (Some x # xs) = (case exact_sum xs of None \<Rightarrow> None | Some y \<Rightarrow> Some (x + y))"
  by (simp_all add: exact_sum_def)

lemma exact_sq [simp]: "fl_sq exact_arith (Some x) = Some (x * x)"
  by (simp add: fl_sq_def)

lemma exact_sum_Some: "exact_sum (map Some xs) = Some (sum_list xs)"
  by (induction xs) simp_all

section \<open>Properties of the logger\<close>

lemma rjust_0 [simp]: "rjust 0 s = s"
  by (simp add: rjust_def)

lemma percent_format_formatter:
  "percent_format formatter (record_dict r) = Inr (code_line r)"
  by (simp add: percent_format_def formatter_def date_format_def format_str_def
      record_dict_def code_line_def pad_def is_digit_def digit_val_def)

lemma emit_formatter:
  "h_formatter h = Some formatter \<Longrightarrow> emit h r = Inr (code_line r @ [CHR 0x0A])"
  by (simp add: emit_def handler_format_def percent_format_formatter)

lemma code_line_example:
  "code_line example_record = ''2020-05-04 10:11:12,345,345INFO     [main.py:42] <run> started''"
  by code_simp

lemma spec_line_example:
  "spec_line example_record = ''2020-05-04 10:11:12,345,345 INFO     [main.py:42] run started''"
  by code_simp

lemma setup_file_example:
  "log_file_handler (projr (Logger_setup any_path 20 (Some ''hymd.log'') False Logger))
     = Some \<lparr>h_sink = FileSink ''hymd.log'', h_level = 20, h_formatter = Some formatter\<rparr>"
  by (simp add: Logger_setup_def any_path_def Let_def)

text \<open>
  C6, as stated, fails: after \<open>Logger.setup\<close> with a log file, the file sink writes the
  example record with the level name directly behind the millisecond field (no blank
  between them) and the function name in angle brackets, which is not the line the
  specification describes.
\<close>

theorem C6_counterexample:
  "emit (the (log_file_handler (projr (Logger_setup any_path 20 (Some ''hymd.log'') False Logger))))
       example_record
     = Inr (''2020-05-04 10:11:12,345,345INFO     [main.py:42] <run> started'' @ [CHR 0x0A])
   \<and> emit (the (log_file_handler (projr (Logger_setup any_path 20 (Some ''hymd.log'') False Logger))))
       example_record
     \<noteq> Inr (spec_line example_record @ [CHR 0x0A])"
  by (simp add: setup_file_example emit_formatter code_line_example spec_line_example)

text \<open>
  C6, amended: when a log file path is given (and the file can be opened),
  \<open>Logger.setup\<close> attaches one file sink to both channels, and every line that sink
  writes is the timestamp, a comma, the integral millisecond field, immediately followed
  (no blank) by the level name left-justified in 8 characters, then
  \<open> [<file>:<line>] <\<close>, the function name, \<open>> \<close>, the message and a newline.
  When console output is requested too, the console sink is attached to both channels
  and writes every record exactly as the file sink does.
\<close>

theorem C6_file_sink_line_format:
  assumes "truthy lf" and "can_open (the lf)"
  shows "\<exists>cls' h. Logger_setup can_open lvl lf to_stdout cls = Inr cls'
      \<and> log_file_handler cls' = Some h
      \<and> h_sink h = FileSink (the lf)
      \<and> h \<in> set (ch_handlers (rank0 cls'))
      \<and> h \<in> set (ch_handlers (all_ranks cls'))
      \<and> (\<forall>r. emit h r =
            Inr (asctime r @ '','' @ show_int (trunc (msecs r)) @ ljust 8 (levelname r)
                 @ '' ['' @ filename r @ '':'' @ show_int (lineno r) @ ''] <'' @ funcName r
                 @ ''> '' @ message r @ [CHR 0x0A]))
      \<and> (to_stdout \<longrightarrow>
           (\<exists>c. stdout_handler cls' = Some c
              \<and> h_sink c = StreamSink Stdout
              \<and> c \<in> set (ch_handlers (rank0 cls'))
              \<and> c \<in> set (ch_handlers (all_ranks cls'))
              \<and> (\<forall>r. emit c r = emit h r)))"
  using assms
  by (cases to_stdout)
     (simp_all add: Logger_setup_def addHandler_def setLevel_def addFilter_def
        emit_formatter code_line_def Let_def)

theorem C6_file_sink_line_format_witness:
  "truthy (Some ''hymd.log'') \<and> any_path (the (Some ''hymd.log''))
   \<and> (\<exists>cls' h. Logger_setup any_path 20 (Some ''hymd.log'') True Logger = Inr cls'
        \<and> log_file_handler cls' = Some h
        \<and> emit h example_record
            = Inr (''2020-05-04 10:11:12,345,345INFO     [main.py:42] <run> started'' @ [CHR 0x0A])
        \<and> (\<exists>c. stdout_handler cls' = Some c \<and> h_sink c = StreamSink Stdout
              \<and> emit c example_record = emit h example_record))"
proof -
  have t: "truthy (Some ''hymd.log'')" by simp
  have o: "any_path (the (Some ''hymd.log''))" by (simp add: any_path_def)
  from C6_file_sink_line_format [of "Some ''hymd.log''" any_path 20 True Logger, OF t o]
  obtain cls' h where
    s: "Logger_setup any_path 20 (Some ''hymd.log'') True Logger = Inr cls'"
    and h: "log_file_handler cls' = Some h"
    and e: "\<forall>r. emit h r =
            Inr (asctime r @ '','' @ show_int (trunc (msecs r)) @ ljust 8 (levelname r)
                 @ '' ['' @ filename r @ '':'' @ show_int (lineno r) @ ''] <'' @ funcName r
                 @ ''> '' @ message r @ [CHR 0x0A])"
    and c: "\<exists>c. stdout_handler cls' = Some c
              \<and> h_sink c = StreamSink Stdout
              \<and> c \<in> set (ch_handlers (rank0 cls'))
              \<and> c \<in> set (ch_handlers (all_ranks cls'))
              \<and> (\<forall>r. emit c r = emit h r)"
    by auto
  from e have "emit h example_record
      = Inr (''2020-05-04 10:11:12,345,345INFO     [main.py:42] <run> started'' @ [CHR 0x0A])"
    using code_line_example by (simp add: code_line_def)
  with s h c t o show ?thesis by auto
qed

text \<open>
  C9, as stated, fails: called with no file path and without console output on the
  fresh \<open>Logger\<close>, \<open>setup\<close> leaves a rank filter on the rank-zero channel, so that
  channel is not the old one with only its threshold changed.
\<close>

theorem C9_counterexample:
  "ch_filters (rank0 (projr (Logger_setup any_path 20 None False Logger))) = [MPIFilter]
   \<and> ch_filters (rank0 Logger) = []
   \<and> rank0 (projr (Logger_setup any_path 20 None False Logger)) \<noteq> setLevel 20 (rank0 Logger)"
  by (simp add: Logger_setup_def Logger_def getLogger_def setLevel_def addFilter_def Let_def)

text \<open>
  C9, amended: called with no file path and without console output, \<open>Logger.setup\<close>
  sets the threshold of both channels, appends one rank filter to the rank-zero channel
  and stores the level and the absent file path in the class; it attaches no sink and
  changes nothing else.
\<close>

theorem C9_setup_without_sinks:
  "Logger_setup can_open lvl None False cls =
     Inr (cls\<lparr>level := Some lvl, log_file := None,
               rank0 := (rank0 cls)\<lparr>ch_level := lvl,
                                     ch_filters := ch_filters (rank0 cls) @ [MPIFilter]\<rparr>,
               all_ranks := (all_ranks cls)\<lparr>ch_level := lvl\<rparr>\<rparr>)
   \<and> ch_handlers (rank0 (projr (Logger_setup can_open lvl None False cls))) = ch_handlers (rank0 cls)
   \<and> ch_handlers (all_ranks (projr (Logger_setup can_open lvl None False cls)))
       = ch_handlers (all_ranks cls)"
  by (simp add: Logger_setup_def setLevel_def addFilter_def Let_def)

section \<open>Properties of bonded-list construction\<close>

subsection \<open>The scans of the configured definitions\<close>

lemma scan_bonds_filter:
  "scan_bonds bs ai aj bonds_2 =
     bonds_2 @ map (\<lambda>b. (snd ai, snd aj, equilibrium b, strength b))
                 (filter (\<lambda>b. fst ai = atom_1 b \<and> fst aj = atom_2 b) bs)"
  by (induction bs arbitrary: bonds_2) (auto simp: Let_def)

lemma scan_angles_filter:
  "scan_angles as ai amid aj bonds_3 =
     bonds_3 @ map (\<lambda>a. (snd ai, snd amid, snd aj, radians (equilibrium a), strength a))
                 (filter (\<lambda>a. (fst ai = atom_1 a \<and> fst amid = atom_2 a \<and> fst aj = atom_3 a)
                              \<or> (fst ai = atom_3 a \<and> fst amid = atom_2 a \<and> fst aj = atom_1 a)) as)"
  by (induction as arbitrary: bonds_3) (auto simp: Let_def)

subsection \<open>A molecule of two bonded particles\<close>

text \<open>
  Two particles of one molecule, with global indices 0 and 1 and a bond between them:
  the bonded lists are what the scan of the configured bonds yields for the pair.
\<close>

lemma unique_pair: "unique [0, 0] = [0]"
  by code_simp

lemma zip_pair: "zip [0..<length [0, 1 :: int]] [0, 1 :: int] = [(0, 0), (1, 1)]"
  by code_simp

lemma for_each_single:
  "for_each f [x] s = (case f x s of Inl e \<Rightarrow> Inl e | Inr s' \<Rightarrow> Inr s')"
  by (simp split: sum.splits)

lemma pair_graph_built:
  "for_each (graph_item 0 [0, 0] [n0, n1] (Some [[1, - 1], [0, - 1]])) [(0, 0), (1, 1)] Graph
     = Inr (pair_graph n0 n1)"
  apply (simp add: graph_item_def arr_get_def)
  apply (simp add: add_node_def add_edge_def touch_node_def link_def adj_of_def dict_has_def
      Graph_def pair_graph_def)
  done

lemma pair_paths:
  "single_source_shortest_path (pair_graph n0 n1) 0 = Inr [(0, [0]), (1, [0, 1])]"
  "single_source_shortest_path (pair_graph n0 n1) 1 = Inr [(1, [1]), (0, [1, 0])]"
  by (simp_all add: single_source_shortest_path_def pair_graph_def shortest_loop.simps
      expand_def visit_def dict_get_def dict_has_def)

lemma pair_attrs:
  "node_attr (pair_graph n0 n1) 0 = Inr (n0, 0)"
  "node_attr (pair_graph n0 n1) 1 = Inr (n1, 1)"
  by (simp_all add: node_attr_def pair_graph_def)

lemma pair_keys: "map fst (g_adj (pair_graph n0 n1)) = [0, 1]"
  by (simp add: pair_graph_def)

lemma prepare_bonds_old_pair:
  "prepare_bonds_old [0, 0] [n0, n1] (Some [[1, - 1], [0, - 1]]) [0, 1] config =
     Inr (scan_bonds (bonds config) (n0, 0) (n1, 1) [], [])"
  apply (simp only: prepare_bonds_old_def unique_pair for_each_single molecule_item_def zip_pair
      pair_graph_built sum.case)
  apply (simp add: pair_keys connectivity_item_def pair_paths connected_item_def pair_attrs)
  done

subsection \<open>The single-lipid fixture\<close>

lemma dppc_zip:
  "zip [0..<length dppc_indices] dppc_indices =
     [(0, 0), (1, 1), (2, 2), (3, 3), (4, 4), (5, 5), (6, 6), (7, 7), (8, 8), (9, 9),
      (10, 10), (11, 11)]"
  by code_simp

lemma dppc_unique: "unique dppc_molecules = [0]"
  by code_simp

lemma dppc_graph_built:
  "for_each (graph_item 0 dppc_molecules dppc_names dppc_bonds)
     (zip [0..<length dppc_indices] dppc_indices) Graph = Inr dppc_graph"
  unfolding dppc_zip
  apply (simp add: graph_item_def arr_get_def dppc_molecules_def dppc_names_def dppc_bonds_def)
  apply (simp add: add_node_def add_edge_def touch_node_def link_def adj_of_def dict_has_def
      Graph_def dppc_graph_def)
  done

lemma dppc_keys: "map fst (g_adj dppc_graph) = [0, 1, 2, 3, 4, 8, 5, 6, 7, 9, 10, 11]"
  by (simp add: dppc_graph_def)

lemma dppc_paths:
  "single_source_shortest_path dppc_graph 0 =
     Inr [(0, [0]),
          (1, [0, 1]),
          (2, [0, 1, 2]),
          (3, [0, 1, 2, 3]),
          (4, [0, 1, 2, 4]),
          (8, [0, 1, 2, 3, 8]),
          (5, [0, 1, 2, 4, 5]),
          (9, [0, 1, 2, 3, 8, 9]),
          (6, [0, 1, 2, 4, 5, 6]),
          (10, [0, 1, 2, 3, 8, 9, 10]),
          (7, [0, 1, 2, 4, 5, 6, 7]),
          (11, [0, 1, 2, 3, 8, 9, 10, 11])]"
  "single_source_shortest_path dppc_graph 1 =
     Inr [(1, [1]),
          (0, [1, 0]),
          (2, [1, 2]),
          (3, [1, 2, 3]),
          (4, [1, 2, 4]),
          (8, [1, 2, 3, 8]),
          (5, [1, 2, 4, 5]),
          (9, [1, 2, 3, 8, 9]),
          (6, [1, 2, 4, 5, 6]),
          (10, [1, 2, 3, 8, 9, 10]),
          (7, [1, 2, 4, 5, 6, 7]),
          (11, [1, 2, 3, 8, 9, 10, 11])]"
  "single_source_shortest_path dppc_graph 2 =
     Inr [(2, [2]),
          (1, [2, 1]),
          (3, [2, 3]),
          (4, [2, 4]),
          (0, [2, 1, 0]),
          (8, [2, 3, 8]),
          (5, [2, 4, 5]),
          (9, [2, 3, 8, 9]),
          (6, [2, 4, 5, 6]),
          (10, [2, 3, 8, 9, 10]),
          (7, [2, 4, 5, 6, 7]),
          (11, [2, 3, 8, 9, 10, 11])]"
  "single_source_shortest_path dppc_graph 3 =
     Inr [(3, [3]),
          (2, [3, 2]),
          (8, [3, 8]),
          (1, [3, 2, 1]),
          (4, [3, 2, 4]),
          (9, [3, 8, 9]),
          (0, [3, 2, 1, 0]),
          (5, [3, 2, 4, 5]),
          (10, [3, 8, 9, 10]),
          (6, [3, 2, 4, 5, 6]),
          (11, [3, 8, 9, 10, 11]),
          (7, [3, 2, 4, 5, 6, 7])]"
  "single_source_shortest_path dppc_graph 4 =
     Inr [(4, [4]),
          (2, [4, 2]),
          (5, [4, 5]),
          (1, [4, 2, 1]),
          (3, [4, 2, 3]),
          (6, [4, 5, 6]),
          (0, [4, 2, 1, 0]),
          (8, [4, 2, 3, 8]),
          (7, [4, 5, 6, 7]),
          (9, [4, 2, 3, 8, 9]),
          (10, [4, 2, 3, 8, 9, 10]),
          (11, [4, 2, 3, 8, 9, 10, 11])]"
  "single_source_shortest_path dppc_graph 8 =
     Inr [(8, [8]),
          (3, [8, 3]),
          (9, [8, 9]),
          (2, [8, 3, 2]),
          (10, [8, 9, 10]),
          (1, [8, 3, 2, 1]),
          (4, [8, 3, 2, 4]),
          (11, [8, 9, 10, 11]),
          (0, [8, 3, 2, 1, 0]),
          (5, [8, 3, 2, 4, 5]),
          (6, [8, 3, 2, 4, 5, 6]),
          (7, [8, 3, 2, 4, 5, 6, 7])]"
  "single_source_shortest_path dppc_graph 5 =
     Inr [(5, [5]),
          (4, [5, 4]),
          (6, [5, 6]),
          (2, [5, 4, 2]),
          (7, [5, 6, 7]),
          (1, [5, 4, 2, 1]),
          (3, [5, 4, 2, 3]),
          (0, [5, 4, 2, 1, 0]),
          (8, [5, 4, 2, 3, 8]),
          (9, [5, 4, 2, 3, 8, 9]),
          (10, [5, 4, 2, 3, 8, 9, 10]),
          (11, [5, 4, 2, 3, 8, 9, 10, 11])]"
  "single_source_shortest_path dppc_graph 6 =
     Inr [(6, [6]),
          (5, [6, 5]),
          (7, [6, 7]),
          (4, [6, 5, 4]),
          (2, [6, 5, 4, 2]),
          (1, [6, 5, 4, 2, 1]),
          (3, [6, 5, 4, 2, 3]),
          (0, [6, 5, 4, 2, 1, 0]),
          (8, [6, 5, 4, 2, 3, 8]),
          (9, [6, 5, 4, 2, 3, 8, 9]),
          (10, [6, 5, 4, 2, 3, 8, 9, 10]),
          (11, [6, 5, 4, 2, 3, 8, 9, 10, 11])]"
  "single_source_shortest_path dppc_graph 7 =
     Inr [(7, [7]),
          (6, [7, 6]),
          (5, [7, 6, 5]),
          (4, [7, 6, 5, 4]),
          (2, [7, 6, 5, 4, 2]),
          (1, [7, 6, 5, 4, 2, 1]),
          (3, [7, 6, 5, 4, 2, 3]),
          (0, [7, 6, 5, 4, 2, 1, 0]),
          (8, [7, 6, 5, 4, 2, 3, 8]),
          (9, [7, 6, 5, 4, 2, 3, 8, 9]),
          (10, [7, 6, 5, 4, 2, 3, 8, 9, 10]),
          (11, [7, 6, 5, 4, 2, 3, 8, 9, 10, 11])]"
  "single_source_shortest_path dppc_graph 9 =
     Inr [(9, [9]),
          (8, [9, 8]),
          (10, [9, 10]),
          (3, [9, 8, 3]),
          (11, [9, 10, 11]),
          (2, [9, 8, 3, 2]),
          (1, [9, 8, 3, 2, 1]),
          (4, [9, 8, 3, 2, 4]),
          (0, [9, 8, 3, 2, 1, 0]),
          (5, [9, 8, 3, 2, 4, 5]),
          (6, [9, 8, 3, 2, 4, 5, 6]),
          (7, [9, 8, 3, 2, 4, 5, 6, 7])]"
  "single_source_shortest_path dppc_graph 10 =
     Inr [(10, [10]),
          (9, [10, 9]),
          (11, [10, 11]),
          (8, [10, 9, 8]),
          (3, [10, 9, 8, 3]),
          (2, [10, 9, 8, 3, 2]),
          (1, [10, 9, 8, 3, 2, 1]),
          (4, [10, 9, 8, 3, 2, 4]),
          (0, [10, 9, 8, 3, 2, 1, 0]),
          (5, [10, 9, 8, 3, 2, 4, 5]),
          (6, [10, 9, 8, 3, 2, 4, 5, 6]),
          (7, [10, 9, 8, 3, 2, 4, 5, 6, 7])]"
  "single_source_shortest_path dppc_graph 11 =
     Inr [(11, [11]),
          (10, [11, 10]),
          (9, [11, 10, 9]),
          (8, [11, 10, 9, 8]),
          (3, [11, 10, 9, 8, 3]),
          (2, [11, 10, 9, 8, 3, 2]),
          (1, [11, 10, 9, 8, 3, 2, 1]),
          (4, [11, 10, 9, 8, 3, 2, 4]),
          (0, [11, 10, 9, 8, 3, 2, 1, 0]),
          (5, [11, 10, 9, 8, 3, 2, 4, 5]),
          (6, [11, 10, 9, 8, 3, 2, 4, 5, 6]),
          (7, [11, 10, 9, 8, 3, 2, 4, 5, 6, 7])]"
  by (simp_all add: single_source_shortest_path_def dppc_graph_def shortest_loop.simps
      expand_def visit_def dict_get_def dict_has_def)

lemma dppc_attrs:
  "node_attr dppc_graph 0 = Inr (''N'', 0)"
  "node_attr dppc_graph 1 = Inr (''P'', 1)"
  "node_attr dppc_graph 2 = Inr (''G'', 2)"
  "node_attr dppc_graph 3 = Inr (''G'', 3)"
  "node_attr dppc_graph 4 = Inr (''C'', 4)"
  "node_attr dppc_graph 8 = Inr (''C'', 8)"
  "node_attr dppc_graph 5 = Inr (''C'', 5)"
  "node_attr dppc_graph 6 = Inr (''C'', 6)"
  "node_attr dppc_graph 7 = Inr (''C'', 7)"
  "node_attr dppc_graph 9 = Inr (''C'', 9)"
  "node_attr dppc_graph 10 = Inr (''C'', 10)"
  "node_attr dppc_graph 11 = Inr (''C'', 11)"
  by (simp_all add: node_attr_def dppc_graph_def)

lemma dppc_result:
  "prepare_bonds_old dppc_molecules dppc_names dppc_bonds dppc_indices dppc_config =
     Inr ([(0, 1, 0.47, 1250), (1, 2, 0.47, 1250), (2, 3, 0.37, 1250), (2, 4, 0.47, 1250),
           (3, 8, 0.47, 1250), (4, 5, 0.47, 1250), (8, 9, 0.47, 1250), (5, 6, 0.47, 1250),
           (6, 7, 0.47, 1250), (9, 10, 0.47, 1250), (10, 11, 0.47, 1250)],
          [(1, 2, 3, radians 120, 25), (1, 2, 4, radians 180, 25),
           (2, 4, 5, radians 180, 25), (3, 8, 9, radians 180, 25),
           (4, 5, 6, radians 180, 25), (8, 9, 10, radians 180, 25),
           (5, 6, 7, radians 180, 25), (9, 10, 11, radians 180, 25)])"
  by (simp add: prepare_bonds_old_def dppc_unique molecule_item_def dppc_graph_built dppc_keys
      connectivity_item_def dppc_paths connected_item_def dppc_attrs dppc_config_def
      dppc_bond_2_def dppc_bond_3_def mk_bond_def mk_angle_def Let_def)

subsection \<open>The bonded lists, loop by loop\<close>

text \<open>
  Every loop of \<open>prepare_bonds_old\<close> only appends to the two lists: what a run
  returns is the concatenation, over the pairs and triples that the shortest-path
  search reports, of what the scans of the configured definitions yield for each.
\<close>

lemma for_each_appends:
  assumes step: "\<And>x a b a' b'. x \<in> set xs \<Longrightarrow> f x (a, b) = Inr (a', b')
                   \<Longrightarrow> a' = a @ P x \<and> b' = b @ T x"
    and run: "for_each f xs (a, b) = Inr (a', b')"
  shows "a' = a @ concat (map P xs) \<and> b' = b @ concat (map T xs)"
  using assms
proof (induction xs arbitrary: a b)
  case Nil
  then show ?case by simp
next
  case (Cons x xs)
  from Cons.prems(2) obtain a1 b1 where f: "f x (a, b) = Inr (a1, b1)"
    and r: "for_each f xs (a1, b1) = Inr (a', b')"
    by (auto split: sum.splits)
  from Cons.prems(1) [OF _ f] have 1: "a1 = a @ P x \<and> b1 = b @ T x" by simp
  have "a' = a1 @ concat (map P xs) \<and> b' = b1 @ concat (map T xs)"
    by (rule Cons.IH [OF _ r]) (rule Cons.prems(1), simp_all)
  with 1 show ?case by simp
qed

lemma concat_map_concat:
  "concat (map (\<lambda>x. concat (map F (G x))) xs) = concat (map F (concat (map G xs)))"
  by (induction xs) simp_all

lemma connected_item_appends:
  assumes "connected_item config g i jp (b2, b3) = Inr (b2', b3')"
  shows "b2' = b2 @ concat (map (\<lambda>(ai, aj). scan_bonds (bonds config) ai aj []) (item_pairs g i jp))
       \<and> b3' = b3 @ concat (map (\<lambda>(ai, amid, aj). scan_angles (angle_bonds config) ai amid aj [])
                              (item_triples g i jp))"
proof -
  obtain j path where jp: "jp = (j, path)" by (cases jp)
  have sb: "\<And>ai aj acc. scan_bonds (bonds config) ai aj acc
              = acc @ scan_bonds (bonds config) ai aj []"
    by (simp add: scan_bonds_filter)
  have sa: "\<And>ai amid aj acc. scan_angles (angle_bonds config) ai amid aj acc
              = acc @ scan_angles (angle_bonds config) ai amid aj []"
    by (simp add: scan_angles_filter)
  from assms show ?thesis
    unfolding jp connected_item_def item_pairs_def item_triples_def the_attr_def
    by (auto split: if_splits sum.splits simp: sb [symmetric] sa [symmetric])
qed

lemma connectivity_item_appends:
  assumes "connectivity_item config g i (b2, b3) = Inr (b2', b3')"
  shows "b2' = b2 @ concat (map (\<lambda>(ai, aj). scan_bonds (bonds config) ai aj [])
                              (concat (map (item_pairs g i) (shortest_paths g i))))
       \<and> b3' = b3 @ concat (map (\<lambda>(ai, amid, aj). scan_angles (angle_bonds config) ai amid aj [])
                              (concat (map (item_triples g i) (shortest_paths g i))))"
proof -
  from assms obtain ps where ps: "single_source_shortest_path g i = Inr ps"
    and run: "for_each (connected_item config g i) ps (b2, b3) = Inr (b2', b3')"
    by (auto simp: connectivity_item_def split: sum.splits)
  from ps have sp: "shortest_paths g i = ps" by (simp add: shortest_paths_def)
  have "b2' = b2 @ concat (map (\<lambda>jp. concat (map (\<lambda>(ai, aj). scan_bonds (bonds config) ai aj [])
                              (item_pairs g i jp))) ps)
       \<and> b3' = b3 @ concat (map (\<lambda>jp. concat (map (\<lambda>(ai, amid, aj). scan_angles (angle_bonds config) ai amid aj [])
                              (item_triples g i jp))) ps)"
    by (rule for_each_appends [OF _ run]) (rule connected_item_appends)
  then show ?thesis
    unfolding sp by (simp only: concat_map_concat)
qed

lemma molecule_item_appends:
  assumes "molecule_item molecules names bonds_arr indices config mol (b2, b3) = Inr (b2', b3')"
  shows "b2' = b2 @ concat (map (\<lambda>(ai, aj). scan_bonds (bonds config) ai aj [])
                              (graph_pairs (molecule_graph molecules names bonds_arr indices mol)))
       \<and> b3' = b3 @ concat (map (\<lambda>(ai, amid, aj). scan_angles (angle_bonds config) ai amid aj [])
                              (graph_triples (molecule_graph molecules names bonds_arr indices mol)))"
proof -
  from assms obtain g where g: "for_each (graph_item mol molecules names bonds_arr)
             (zip [0..<length indices] indices) Graph = Inr g"
    and run: "for_each (connectivity_item config g) (map fst (g_adj g)) (b2, b3) = Inr (b2', b3')"
    by (auto simp: molecule_item_def split: sum.splits)
  from g have mg: "molecule_graph molecules names bonds_arr indices mol = g"
    by (simp add: molecule_graph_def)
  have "b2' = b2 @ concat (map (\<lambda>i. concat (map (\<lambda>(ai, aj). scan_bonds (bonds config) ai aj [])
                              (concat (map (item_pairs g i) (shortest_paths g i)))))
                         (map fst (g_adj g)))
       \<and> b3' = b3 @ concat (map (\<lambda>i. concat (map (\<lambda>(ai, amid, aj). scan_angles (angle_bonds config) ai amid aj [])
                              (concat (map (item_triples g i) (shortest_paths g i)))))
                         (map fst (g_adj g)))"
    by (rule for_each_appends [OF _ run]) (rule connectivity_item_appends)
  then show ?thesis
    unfolding mg graph_pairs_def graph_triples_def by (simp only: concat_map_concat)
qed

lemma prepare_bonds_old_appends:
  assumes "prepare_bonds_old molecules names bonds_arr indices config = Inr (b2, b3)"
  shows "b2 = concat (map (\<lambda>(ai, aj). scan_bonds (bonds config) ai aj [])
                        (bonded_pairs molecules names bonds_arr indices))
       \<and> b3 = concat (map (\<lambda>(ai, amid, aj). scan_angles (angle_bonds config) ai amid aj [])
                        (angle_triples molecules names bonds_arr indices))"
proof -
  from assms have run: "for_each (molecule_item molecules names bonds_arr indices config)
      (unique molecules) ([], []) = Inr (b2, b3)"
    by (simp add: prepare_bonds_old_def)
  have "b2 = [] @ concat (map (\<lambda>mol. concat (map (\<lambda>(ai, aj). scan_bonds (bonds config) ai aj [])
                              (graph_pairs (molecule_graph molecules names bonds_arr indices mol))))
                         (unique molecules))
       \<and> b3 = [] @ concat (map (\<lambda>mol. concat (map (\<lambda>(ai, amid, aj). scan_angles (angle_bonds config) ai amid aj [])
                              (graph_triples (molecule_graph molecules names bonds_arr indices mol))))
                         (unique molecules))"
    by (rule for_each_appends [OF _ run]) (rule molecule_item_appends)
  then show ?thesis
    unfolding bonded_pairs_def angle_triples_def by (simp only: concat_map_concat append_Nil)
qed

subsection \<open>A chain of three particles\<close>

lemma chain_unique: "unique [0, 0, 0] = [0]"
  by code_simp

lemma chain_zip: "zip [0..<length [0, 1, 2 :: int]] [0, 1, 2 :: int] = [(0, 0), (1, 1), (2, 2)]"
  by code_simp

lemma chain_graph_built:
  "for_each (graph_item 0 [0, 0, 0] [''N'', ''P'', ''G''] (Some [[1, - 1], [0, 2], [1, - 1]]))
     [(0, 0), (1, 1), (2, 2)] Graph = Inr chain_graph"
  apply (simp add: graph_item_def arr_get_def)
  apply (simp add: add_node_def add_edge_def touch_node_def link_def adj_of_def dict_has_def
      Graph_def chain_graph_def)
  done

lemma chain_molecule_graph:
  "molecule_graph [0, 0, 0] [''N'', ''P'', ''G''] (Some [[1, - 1], [0, 2], [1, - 1]]) [0, 1, 2] 0
     = chain_graph"
  by (simp only: molecule_graph_def chain_zip chain_graph_built sum.sel)

lemma chain_keys: "map fst (g_adj chain_graph) = [0, 1, 2]"
  by (simp add: chain_graph_def)

lemma chain_paths:
  "single_source_shortest_path chain_graph 0 = Inr [(0, [0]), (1, [0, 1]), (2, [0, 1, 2])]"
  "single_source_shortest_path chain_graph 1 = Inr [(1, [1]), (0, [1, 0]), (2, [1, 2])]"
  "single_source_shortest_path chain_graph 2 = Inr [(2, [2]), (1, [2, 1]), (0, [2, 1, 0])]"
  by (simp_all add: single_source_shortest_path_def chain_graph_def shortest_loop.simps
      expand_def visit_def dict_get_def dict_has_def)

lemma chain_attrs:
  "node_attr chain_graph 0 = Inr (''N'', 0)"
  "node_attr chain_graph 1 = Inr (''P'', 1)"
  "node_attr chain_graph 2 = Inr (''G'', 2)"
  by (simp_all add: node_attr_def chain_graph_def)

lemma chain_result:
  "prepare_bonds_old [0, 0, 0] [''N'', ''P'', ''G''] (Some [[1, - 1], [0, 2], [1, - 1]]) [0, 1, 2]
     twice_config
   = Inr ([(0, 1, 0.47, 1250), (0, 1, 0.5, 1000)],
          [(0, 1, 2, radians 120, 25), (0, 1, 2, radians 100, 30)])"
  apply (simp only: prepare_bonds_old_def chain_unique for_each_single molecule_item_def chain_zip
      chain_graph_built sum.case)
  apply (simp add: chain_keys connectivity_item_def chain_paths connected_item_def chain_attrs
      twice_config_def no_config_def mk_bond_def mk_angle_def Let_def)
  done

lemma chain_pairs:
  "bonded_pairs [0, 0, 0] [''N'', ''P'', ''G''] (Some [[1, - 1], [0, 2], [1, - 1]]) [0, 1, 2]
     = [((''N'', 0), (''P'', 1)), ((''P'', 1), (''G'', 2))]"
  apply (simp only: bonded_pairs_def chain_unique chain_molecule_graph graph_pairs_def chain_keys
      list.map concat.simps append_Nil2)
  apply (simp add: shortest_paths_def chain_paths item_pairs_def the_attr_def chain_attrs)
  done

lemma chain_triples:
  "angle_triples [0, 0, 0] [''N'', ''P'', ''G''] (Some [[1, - 1], [0, 2], [1, - 1]]) [0, 1, 2]
     = [((''N'', 0), (''P'', 1), (''G'', 2))]"
  apply (simp only: angle_triples_def chain_unique chain_molecule_graph graph_triples_def chain_keys
      list.map concat.simps append_Nil2)
  apply (simp add: shortest_paths_def chain_paths item_triples_def the_attr_def chain_attrs)
  done

lemma chain_forward_only:
  "\<forall>(ai, aj) \<in> set (bonded_pairs [0, 0, 0] [''N'', ''P'', ''G'']
                      (Some [[1, - 1], [0, 2], [1, - 1]]) [0, 1, 2]).
     \<forall>b \<in> set (bonds twice_config).
       (fst ai = atom_2 b \<and> fst aj = atom_1 b) \<longrightarrow> (fst ai = atom_1 b \<and> fst aj = atom_2 b)"
  by (simp add: chain_pairs twice_config_def no_config_def mk_bond_def)

subsection \<open>The claims\<close>

text \<open>
  C1 (the code does not do what the claim says): a bonded pair whose names are
  \<open>P\<close>, \<open>N\<close> in index order, with the configured bond \<open>(N, P)\<close>, matches the
  definition in reversed order only. \<open>prepare_bonds_old\<close> emits nothing for it,
  while the same pair named in forward order gets its entry: \<open>match_backward\<close>
  repeats the test of \<open>match_forward\<close>.
\<close>

theorem C1_reversed_pair_dropped:
  "prepare_bonds_old [0, 0] [''P'', ''N''] (Some [[1, - 1], [0, - 1]]) [0, 1]
     (no_config\<lparr>bonds := [mk_bond ''N'' ''P'' 0.47 1250]\<rparr>) = Inr ([], [])
   \<and> prepare_bonds_old [0, 0] [''N'', ''P''] (Some [[1, - 1], [0, - 1]]) [0, 1]
     (no_config\<lparr>bonds := [mk_bond ''N'' ''P'' 0.47 1250]\<rparr>) = Inr ([(0, 1, 0.47, 1250)], [])"
  by (simp add: prepare_bonds_old_pair no_config_def mk_bond_def Let_def)

text \<open>
  C2, as stated, fails: with two configured bonds that both match the pair \<open>(N, P)\<close>,
  \<open>prepare_bonds_old\<close> emits two entries for the one bonded pair, not only the entry
  of the first definition.
\<close>

theorem C2_counterexample:
  "prepare_bonds_old [0, 0] [''N'', ''P''] (Some [[1, - 1], [0, - 1]]) [0, 1]
     (no_config\<lparr>bonds := [mk_bond ''N'' ''P'' 0.47 1250, mk_bond ''N'' ''P'' 0.5 1000]\<rparr>)
     = Inr ([(0, 1, 0.47, 1250), (0, 1, 0.5, 1000)], [])
   \<and> prepare_bonds_old [0, 0] [''N'', ''P''] (Some [[1, - 1], [0, - 1]]) [0, 1]
     (no_config\<lparr>bonds := [mk_bond ''N'' ''P'' 0.47 1250, mk_bond ''N'' ''P'' 0.5 1000]\<rparr>)
     \<noteq> Inr ([(0, 1, 0.47, 1250)], [])"
  by (simp add: prepare_bonds_old_pair no_config_def mk_bond_def Let_def)

text \<open>
  C2, amended: \<open>prepare_bonds_old\<close> emits one entry for every configured definition
  that matches, in configuration order, with no first-match cut-off. Whenever it
  returns, the two-body list is, for each directly bonded pair that the shortest-path
  search reports (\<open>bonded_pairs\<close>, in the order of the loops), one entry
  \<open>(local index, local index, equilibrium, strength)\<close> for every definition of
  \<open>config.bonds\<close> that matches the pair's names; the three-body list is, for each angle
  triple that the search reports (\<open>angle_triples\<close>), one entry with the equilibrium
  converted to radians for every definition of \<open>config.angle_bonds\<close> that matches the
  triple's names in forward or reversed order. For pairs the statement is made for
  configurations in which every bond definition that matches a reported pair in
  reversed order also matches it in forward order.
\<close>

theorem C2_entry_per_matching_definition:
  assumes "prepare_bonds_old molecules names bonds_arr indices config = Inr (bonds_2, bonds_3)"
    and "\<forall>(ai, aj) \<in> set (bonded_pairs molecules names bonds_arr indices).
           \<forall>b \<in> set (bonds config).
             (fst ai = atom_2 b \<and> fst aj = atom_1 b) \<longrightarrow> (fst ai = atom_1 b \<and> fst aj = atom_2 b)"
  shows "bonds_2 =
           concat (map (\<lambda>(ai, aj).
                     map (\<lambda>b. (snd ai, snd aj, equilibrium b, strength b))
                       (filter (\<lambda>b. (fst ai = atom_1 b \<and> fst aj = atom_2 b)
                                    \<or> (fst ai = atom_2 b \<and> fst aj = atom_1 b))
                          (bonds config)))
                   (bonded_pairs molecules names bonds_arr indices))
       \<and> bonds_3 =
           concat (map (\<lambda>(ai, amid, aj).
                     map (\<lambda>a. (snd ai, snd amid, snd aj, radians (equilibrium a), strength a))
                       (filter (\<lambda>a. (fst ai = atom_1 a \<and> fst amid = atom_2 a \<and> fst aj = atom_3 a)
                                    \<or> (fst ai = atom_3 a \<and> fst amid = atom_2 a \<and> fst aj = atom_1 a))
                          (angle_bonds config)))
                   (angle_triples molecules names bonds_arr indices))"
proof -
  have eq: "\<And>p. p \<in> set (bonded_pairs molecules names bonds_arr indices) \<Longrightarrow>
      (case p of (ai, aj) \<Rightarrow>
         map (\<lambda>b. (snd ai, snd aj, equilibrium b, strength b))
           (filter (\<lambda>b. (fst ai = atom_1 b \<and> fst aj = atom_2 b)
                        \<or> (fst ai = atom_2 b \<and> fst aj = atom_1 b)) (bonds config)))
      = (case p of (ai, aj) \<Rightarrow> scan_bonds (bonds config) ai aj [])"
  proof -
    fix p assume p: "p \<in> set (bonded_pairs molecules names bonds_arr indices)"
    obtain ai aj where pp: "p = (ai, aj)" by (cases p)
    from assms(2) p pp have "\<And>b. b \<in> set (bonds config) \<Longrightarrow>
      ((fst ai = atom_1 b \<and> fst aj = atom_2 b) \<or> (fst ai = atom_2 b \<and> fst aj = atom_1 b))
        = (fst ai = atom_1 b \<and> fst aj = atom_2 b)"
      by blast
    then have "filter (\<lambda>b. (fst ai = atom_1 b \<and> fst aj = atom_2 b)
                  \<or> (fst ai = atom_2 b \<and> fst aj = atom_1 b)) (bonds config)
           = filter (\<lambda>b. fst ai = atom_1 b \<and> fst aj = atom_2 b) (bonds config)"
      by (intro filter_cong [OF refl])
    then show "(case p of (ai, aj) \<Rightarrow>
         map (\<lambda>b. (snd ai, snd aj, equilibrium b, strength b))
           (filter (\<lambda>b. (fst ai = atom_1 b \<and> fst aj = atom_2 b)
                        \<or> (fst ai = atom_2 b \<and> fst aj = atom_1 b)) (bonds config)))
      = (case p of (ai, aj) \<Rightarrow> scan_bonds (bonds config) ai aj [])"
      by (simp add: pp scan_bonds_filter)
  qed
  have eq3: "(\<lambda>(ai, amid, aj).
                     map (\<lambda>a. (snd ai, snd amid, snd aj, radians (equilibrium a), strength a))
                       (filter (\<lambda>a. (fst ai = atom_1 a \<and> fst amid = atom_2 a \<and> fst aj = atom_3 a)
                                    \<or> (fst ai = atom_3 a \<and> fst amid = atom_2 a \<and> fst aj = atom_1 a))
                          (angle_bonds config)))
     = (\<lambda>(ai, amid, aj). scan_angles (angle_bonds config) ai amid aj [])"
    by (simp add: scan_angles_filter)
  have m: "map (\<lambda>(ai, aj).
                     map (\<lambda>b. (snd ai, snd aj, equilibrium b, strength b))
                       (filter (\<lambda>b. (fst ai = atom_1 b \<and> fst aj = atom_2 b)
                                    \<or> (fst ai = atom_2 b \<and> fst aj = atom_1 b))
                          (bonds config)))
                   (bonded_pairs molecules names bonds_arr indices)
      = map (\<lambda>(ai, aj). scan_bonds (bonds config) ai aj [])
          (bonded_pairs molecules names bonds_arr indices)"
    by (rule map_cong [OF refl]) (rule eq)
  from prepare_bonds_old_appends [OF assms(1)] show ?thesis
    unfolding m eq3 .
qed

theorem C2_entry_per_matching_definition_witness:
  "prepare_bonds_old [0, 0, 0] [''N'', ''P'', ''G''] (Some [[1, - 1], [0, 2], [1, - 1]]) [0, 1, 2]
     twice_config
   = Inr ([(0, 1, 0.47, 1250), (0, 1, 0.5, 1000)],
          [(0, 1, 2, radians 120, 25), (0, 1, 2, radians 100, 30)])
   \<and> bonded_pairs [0, 0, 0] [''N'', ''P'', ''G''] (Some [[1, - 1], [0, 2], [1, - 1]]) [0, 1, 2]
     = [((''N'', 0), (''P'', 1)), ((''P'', 1), (''G'', 2))]
   \<and> angle_triples [0, 0, 0] [''N'', ''P'', ''G''] (Some [[1, - 1], [0, 2], [1, - 1]]) [0, 1, 2]
     = [((''N'', 0), (''P'', 1), (''G'', 2))]
   \<and> [(0, 1, 0.47, 1250), (0, 1, 0.5, 1000)]
     = concat (map (\<lambda>(ai, aj).
                 map (\<lambda>b. (snd ai, snd aj, equilibrium b, strength b))
                   (filter (\<lambda>b. (fst ai = atom_1 b \<and> fst aj = atom_2 b)
                                \<or> (fst ai = atom_2 b \<and> fst aj = atom_1 b))
                      (bonds twice_config)))
               (bonded_pairs [0, 0, 0] [''N'', ''P'', ''G''] (Some [[1, - 1], [0, 2], [1, - 1]])
                  [0, 1, 2]))"
  using C2_entry_per_matching_definition [OF chain_result chain_forward_only]
  by (simp only: chain_result chain_pairs chain_triples simp_thms)

text \<open>
  C3: on the single-lipid fixture \<open>prepare_bonds_old\<close> returns 11 two-body entries, one
  for each of the 11 bonds of the molecule, and 8 three-body entries; each three-body
  entry holds the configured angle of its definition converted to radians: 120 degrees
  as \<open>2\<pi>/3\<close> and 180 degrees as \<open>\<pi>\<close>.
\<close>

theorem C3_dppc_bonded_lists:
  "prepare_bonds_old dppc_molecules dppc_names dppc_bonds dppc_indices dppc_config =
     Inr ([(0, 1, 0.47, 1250), (1, 2, 0.47, 1250), (2, 3, 0.37, 1250), (2, 4, 0.47, 1250),
           (3, 8, 0.47, 1250), (4, 5, 0.47, 1250), (8, 9, 0.47, 1250), (5, 6, 0.47, 1250),
           (6, 7, 0.47, 1250), (9, 10, 0.47, 1250), (10, 11, 0.47, 1250)],
          [(1, 2, 3, 120 * pi / 180, 25), (1, 2, 4, 180 * pi / 180, 25),
           (2, 4, 5, 180 * pi / 180, 25), (3, 8, 9, 180 * pi / 180, 25),
           (4, 5, 6, 180 * pi / 180, 25), (8, 9, 10, 180 * pi / 180, 25),
           (5, 6, 7, 180 * pi / 180, 25), (9, 10, 11, 180 * pi / 180, 25)])
   \<and> length (fst (projr (prepare_bonds_old dppc_molecules dppc_names dppc_bonds dppc_indices
                          dppc_config))) = 11
   \<and> map (\<lambda>b. fst (snd (snd (snd b))))
       (snd (projr (prepare_bonds_old dppc_molecules dppc_names dppc_bonds dppc_indices
                      dppc_config)))
     = [2 * pi / 3, pi, pi, pi, pi, pi, pi, pi]"
  by (simp add: dppc_result radians_def)

text \<open>
  C4 (the code does not do what the claim says): the fixture \<open>three_atoms\<close> binds
  \<open>bonds\<close> to the result of \<open>ndarray.fill\<close>, which is \<open>None\<close>, so \<open>prepare_bonds_old\<close>
  raises \<open>TypeError\<close> at the first particle. With the 3 by 3 array of \<open>-1\<close> that the
  fixture meant to build, both lists come back empty.
\<close>

lemma three_atoms_unique: "unique three_atoms_molecules = [0, 1, 2]"
  by code_simp

lemma three_atoms_zip:
  "zip [0..<length three_atoms_indices] three_atoms_indices = [(0, 0), (1, 1), (2, 2)]"
  by code_simp

lemma three_atoms_none:
  "prepare_bonds_old three_atoms_molecules three_atoms_names three_atoms_bonds
     three_atoms_indices no_config = Inl TypeError"
  apply (simp only: prepare_bonds_old_def three_atoms_unique)
  apply (simp add: molecule_item_def three_atoms_zip)
  apply (simp add: graph_item_def arr_get_def three_atoms_molecules_def three_atoms_names_def
      three_atoms_bonds_def)
  done

lemma three_atoms_molecule_item:
  "molecule_item three_atoms_molecules three_atoms_names
     (Some [[- 1, - 1, - 1], [- 1, - 1, - 1], [- 1, - 1, - 1]])
     three_atoms_indices no_config 0 s = Inr s"
  "molecule_item three_atoms_molecules three_atoms_names
     (Some [[- 1, - 1, - 1], [- 1, - 1, - 1], [- 1, - 1, - 1]])
     three_atoms_indices no_config 1 s = Inr s"
  "molecule_item three_atoms_molecules three_atoms_names
     (Some [[- 1, - 1, - 1], [- 1, - 1, - 1], [- 1, - 1, - 1]])
     three_atoms_indices no_config 2 s = Inr s"
  apply (simp_all add: molecule_item_def three_atoms_zip)
  apply (simp_all add: graph_item_def arr_get_def three_atoms_molecules_def three_atoms_names_def)
  apply (simp_all add: add_node_def dict_has_def Graph_def connectivity_item_def
      single_source_shortest_path_def shortest_loop.simps expand_def visit_def dict_get_def
      connected_item_def split: prod.splits)
  done

lemma three_atoms_filled:
  "prepare_bonds_old three_atoms_molecules three_atoms_names
     (Some [[- 1, - 1, - 1], [- 1, - 1, - 1], [- 1, - 1, - 1]])
     three_atoms_indices no_config = Inr ([], [])"
  by (simp only: prepare_bonds_old_def three_atoms_unique for_each.simps
      three_atoms_molecule_item sum.case)

theorem C4_three_atoms_raises:
  "prepare_bonds_old three_atoms_molecules three_atoms_names three_atoms_bonds
     three_atoms_indices no_config = Inl TypeError
   \<and> prepare_bonds_old three_atoms_molecules three_atoms_names
       (Some [[- 1, - 1, - 1], [- 1, - 1, - 1], [- 1, - 1, - 1]])
       three_atoms_indices no_config = Inr ([], [])"
  by (simp add: three_atoms_none three_atoms_filled)

section \<open>Properties of the bond forces\<close>

subsection \<open>Rounding and the minimum image in the arithmetic without rounding\<close>

lemma around_add_int:
  assumes "x - of_int \<lfloor>x\<rfloor> \<noteq> 1 / 2"
  shows "around (x + of_int t) = around x + of_int t"
proof -
  have f: "\<lfloor>x + of_int t\<rfloor> = \<lfloor>x\<rfloor> + t" by simp
  show ?thesis
    using assms unfolding around_def Let_def f
    by (auto simp: algebra_simps)
qed

lemma minimum_image_exact:
  "l \<noteq> 0 \<Longrightarrow> minimum_image exact_arith l (Some x) = Some (x - l * around (x / l))"
  by (simp add: minimum_image_def fl_div_def fl_mul_def fl_sub_def fl_around_def exact_arith_def)

text \<open>
  Without rounding, a separation and the same separation plus a whole number of box
  lengths have the same minimum image, unless the separation is a whole number of box
  lengths and a half: a tie of \<open>np.around\<close>.
\<close>

lemma minimum_image_exact_shift:
  assumes "l \<noteq> 0" and "x / l - of_int \<lfloor>x / l\<rfloor> \<noteq> 1 / 2"
  shows "minimum_image exact_arith l (Some (x + of_int t * l)) = minimum_image exact_arith l (Some x)"
proof -
  from assms(1) have q: "(x + of_int t * l) / l = x / l + of_int t" by (simp add: field_simps)
  from assms(2) have r: "around (x / l + of_int t) = around (x / l) + of_int t"
    by (rule around_add_int)
  have "x + of_int t * l - l * (around (x / l) + of_int t) = x - l * around (x / l)"
    by (simp add: algebra_simps)
  then show ?thesis
    unfolding minimum_image_exact [OF assms(1)] q r by simp
qed

subsection \<open>Two runs of a loop\<close>

lemma for_each_rel:
  assumes "R s s'"
    and "\<And>x t t'. x \<in> set xs \<Longrightarrow> R t t' \<Longrightarrow> rel_sum (=) R (g x t) (g' x t')"
  shows "rel_sum (=) R (for_each g xs s) (for_each g' xs s')"
  using assms
proof (induction xs arbitrary: s s')
  case Nil
  then show ?case by simp
next
  case (Cons x xs)
  have rel: "rel_sum (=) R (g x s) (g' x s')"
    using Cons.prems by simp
  show ?case
  proof (cases "g x s")
    case (Inl e)
    with rel have "g' x s' = Inl e" by (cases "g' x s'") auto
    with Inl show ?thesis by simp
  next
    case (Inr t)
    with rel obtain t' where t': "g' x s' = Inr t'" and r: "R t t'"
      by (cases "g' x s'") auto
    have "rel_sum (=) R (for_each g xs t) (for_each g' xs t')"
      using r Cons.prems(2) by (intro Cons.IH) simp_all
    with Inr t' show ?thesis by simp
  qed
qed

lemma same_but_eq:
  assumes "same_but d (=) v w"
  shows "v = w"
proof (rule nth_equalityI)
  show "length v = length w" using assms by (simp add: same_but_def)
next
  fix i assume "i < length v"
  with assms show "v ! i = w ! i" by (cases "i = d") (auto simp: same_but_def)
qed

lemma wrap_dim_rel:
  assumes "same_but d P v w"
    and "\<And>a b. P a b \<Longrightarrow> P (minimum_image ar (box_size ! d) a) (minimum_image ar (box_size ! d) b)"
  shows "rel_sum (=) (same_but d P) (wrap_dim ar box_size m v) (wrap_dim ar box_size m w)"
proof (cases "m < length v \<and> m < length box_size")
  case False
  with assms(1) show ?thesis by (auto simp: wrap_dim_def same_but_def)
next
  case True
  show ?thesis
  proof (cases "m = d")
    case True
    with \<open>m < length v \<and> m < length box_size\<close> assms show ?thesis
      by (auto simp: wrap_dim_def same_but_def)
  next
    case False
    with \<open>m < length v \<and> m < length box_size\<close> assms(1) show ?thesis
      by (auto simp: wrap_dim_def same_but_def nth_list_update)
  qed
qed

lemma wrap_loop_rel:
  assumes "same_but d P v w"
    and "\<And>a b. P a b \<Longrightarrow> P (minimum_image ar (box_size ! d) a) (minimum_image ar (box_size ! d) b)"
  shows "rel_sum (=) (same_but d P)
           (for_each (wrap_dim ar box_size) ds v) (for_each (wrap_dim ar box_size) ds w)"
  using assms(1)
  by (rule for_each_rel) (rule wrap_dim_rel, assumption, rule assms(2))

text \<open>
  Two displacement vectors that differ at dimension \<open>d\<close> only, by components with the
  same minimum image, are equal once the loop over the dimensions has passed \<open>d\<close>.
\<close>

lemma wrap_loop_image:
  assumes "same_but d (\<lambda>x y. minimum_image ar (box_size ! d) x = minimum_image ar (box_size ! d) y)
             v w"
    and "d < length v \<longrightarrow> d \<in> set ds"
  shows "rel_sum (=) (same_but d (=))
           (for_each (wrap_dim ar box_size) ds v) (for_each (wrap_dim ar box_size) ds w)"
  using assms
proof (induction ds arbitrary: v w)
  case Nil
  then show ?case by (auto simp: same_but_def)
next
  case (Cons m ds)
  show ?case
  proof (cases "m < length v \<and> m < length box_size")
    case False
    with Cons.prems(1) show ?thesis by (auto simp: wrap_dim_def same_but_def)
  next
    case True
    with Cons.prems(1) have mw: "m < length w" by (simp add: same_but_def)
    let ?v = "v[m := minimum_image ar (box_size ! m) (v ! m)]"
    let ?w = "w[m := minimum_image ar (box_size ! m) (w ! m)]"
    have step: "wrap_dim ar box_size m v = Inr ?v" "wrap_dim ar box_size m w = Inr ?w"
      using True mw by (simp_all add: wrap_dim_def)
    show ?thesis
    proof (cases "m = d")
      case True
      with \<open>m < length v \<and> m < length box_size\<close> Cons.prems(1)
      have "same_but d (=) ?v ?w"
        by (auto simp: same_but_def)
      then have "rel_sum (=) (same_but d (=))
           (for_each (wrap_dim ar box_size) ds ?v) (for_each (wrap_dim ar box_size) ds ?w)"
        by (rule wrap_loop_rel) simp
      then show ?thesis
        by (simp add: step)
    next
      case False
      with Cons.prems(1) \<open>m < length v \<and> m < length box_size\<close>
      have sb: "same_but d (\<lambda>x y. minimum_image ar (box_size ! d) x
                                    = minimum_image ar (box_size ! d) y) ?v ?w"
        by (auto simp: same_but_def nth_list_update)
      have "d < length ?v \<longrightarrow> d \<in> set ds"
        using False Cons.prems(2) by auto
      from Cons.IH [OF sb this] show ?thesis
        by (simp add: step)
    qed
  qed
qed

subsection \<open>One bond, before and after the translation\<close>

lemma translate_length [simp]: "length (translate r box_size a d s) = length r"
  by (simp add: translate_def)

lemma translate_nth:
  "k < length r \<Longrightarrow>
     translate r box_size a d s ! k
       = (if k = a then (r ! a)[d := r ! a ! d + s * box_size ! d] else r ! k)"
  by (simp add: translate_def nth_list_update)

lemma translate_row_length:
  "k < length r \<Longrightarrow> length (translate r box_size a d s ! k) = length (r ! k)"
  by (simp add: translate_nth)

lemma translate_other:
  "k < length r \<Longrightarrow> m < length (r ! k) \<Longrightarrow> m \<noteq> d \<Longrightarrow>
     translate r box_size a d s ! k ! m = r ! k ! m"
  by (auto simp: translate_nth nth_list_update)

lemma displacement_translate:
  assumes i: "i < length r" and j: "j < length r"
    and img: "d < length (r ! i) \<Longrightarrow> d < length (r ! j) \<Longrightarrow>
        minimum_image ar (box_size ! d)
          (rnd ar (translate r box_size a d s ! j ! d - translate r box_size a d s ! i ! d))
        = minimum_image ar (box_size ! d) (rnd ar (r ! j ! d - r ! i ! d))"
  shows "same_but d (\<lambda>x y. minimum_image ar (box_size ! d) x = minimum_image ar (box_size ! d) y)
           (map2 (\<lambda>a b. rnd ar (a - b)) (r ! j) (r ! i))
           (map2 (\<lambda>a b. rnd ar (a - b)) (translate r box_size a d s ! j)
              (translate r box_size a d s ! i))"
proof -
  let ?r = "translate r box_size a d s"
  have len: "length (?r ! j) = length (r ! j)" "length (?r ! i) = length (r ! i)"
    using i j by (simp_all add: translate_row_length)
  have others: "\<And>m. m < length (r ! j) \<Longrightarrow> m < length (r ! i) \<Longrightarrow> m \<noteq> d
      \<Longrightarrow> ?r ! j ! m - ?r ! i ! m = r ! j ! m - r ! i ! m"
    using i j by (simp add: translate_other)
  show ?thesis
    unfolding same_but_def
    using len others img by auto
qed

lemma displacement_unmoved:
  assumes i: "i < length r" and j: "j < length r" and "(i = a) = (j = a)"
  shows "map2 (\<lambda>a b. rnd ar (a - b)) (translate r box_size a d s ! j) (translate r box_size a d s ! i)
       = map2 (\<lambda>a b. rnd ar (a - b)) (r ! j) (r ! i)"
proof (cases "i = a")
  case False
  with assms show ?thesis by (simp add: translate_nth)
next
  case True
  with assms have ji: "j = i" by simp
  have z: "\<And>xs :: real list. map2 (\<lambda>a b. rnd ar (a - b)) xs xs = replicate (length xs) (rnd ar 0)"
    by (simp add: map_replicate_const [symmetric] zip_same_conv_map comp_def)
  show ?thesis
    using i by (simp add: ji z translate_row_length)
qed

lemma rel_sum_same_but_eq:
  assumes "rel_sum (=) (same_but d (=)) x y"
  shows "x = y"
  using assms by (cases x; cases y) (auto dest: same_but_eq)

lemma wrapped_translate_eq:
  assumes i: "i < length r" and j: "j < length r"
    and img: "(i = a) \<noteq> (j = a) \<Longrightarrow> d < length (r ! i) \<Longrightarrow> d < length (r ! j) \<Longrightarrow>
        minimum_image ar (box_size ! d)
          (rnd ar (translate r box_size a d s ! j ! d - translate r box_size a d s ! i ! d))
        = minimum_image ar (box_size ! d) (rnd ar (r ! j ! d - r ! i ! d))"
  shows "for_each (wrap_dim ar box_size)
           [0..<length (map2 (\<lambda>a b. rnd ar (a - b)) (translate r box_size a d s ! j)
                          (translate r box_size a d s ! i))]
           (map2 (\<lambda>a b. rnd ar (a - b)) (translate r box_size a d s ! j)
              (translate r box_size a d s ! i))
       = for_each (wrap_dim ar box_size) [0..<length (map2 (\<lambda>a b. rnd ar (a - b)) (r ! j) (r ! i))]
           (map2 (\<lambda>a b. rnd ar (a - b)) (r ! j) (r ! i))"
proof (cases "(i = a) = (j = a)")
  case True
  with i j show ?thesis by (simp add: displacement_unmoved)
next
  case False
  let ?v = "map2 (\<lambda>a b. rnd ar (a - b)) (r ! j) (r ! i)"
  let ?w = "map2 (\<lambda>a b. rnd ar (a - b)) (translate r box_size a d s ! j)
              (translate r box_size a d s ! i)"
  have sb: "same_but d (\<lambda>x y. minimum_image ar (box_size ! d) x = minimum_image ar (box_size ! d) y)
              ?v ?w"
    using i j by (rule displacement_translate) (rule img, simp_all add: False)
  then have lw: "length ?w = length ?v" by (simp add: same_but_def)
  have "rel_sum (=) (same_but d (=))
          (for_each (wrap_dim ar box_size) [0..<length ?v] ?v)
          (for_each (wrap_dim ar box_size) [0..<length ?v] ?w)"
    using sb by (rule wrap_loop_image) simp
  then show ?thesis
    unfolding lw by (rule rel_sum_same_but_eq [symmetric])
qed

lemma bond_force_translate_eq:
  assumes img: "i < length r \<Longrightarrow> j < length r \<Longrightarrow> (i = a) \<noteq> (j = a)
      \<Longrightarrow> d < length (r ! i) \<Longrightarrow> d < length (r ! j) \<Longrightarrow>
        minimum_image ar (box_size ! d)
          (rnd ar (translate r box_size a d s ! j ! d - translate r box_size a d s ! i ! d))
        = minimum_image ar (box_size ! d) (rnd ar (r ! j ! d - r ! i ! d))"
  shows "bond_force ar box_size (translate r box_size a d s) (i, j, r0, k) st
       = bond_force ar box_size r (i, j, r0, k) st"
proof (cases "i < length r \<and> j < length r")
  case False
  then show ?thesis by (auto simp: bond_force_def arr_get_def split: prod.splits)
next
  case True
  then have i: "i < length r" and j: "j < length r" by simp_all
  from wrapped_translate_eq [OF i j img [OF i j]]
  show ?thesis
    using i j by (simp add: bond_force_def arr_get_def split: prod.splits)
qed

lemma for_each_cong_set:
  assumes "\<And>x s. x \<in> set xs \<Longrightarrow> g x s = h x s"
  shows "for_each g xs s = for_each h xs s"
  using assms by (induction xs arbitrary: s) (auto split: sum.splits)

subsection \<open>The whole evaluation, before and after the translation\<close>

lemma plain_translate_eq:
  assumes "\<forall>(i, j, r0, k) \<in> set bonds_2.
     i < length r \<and> j < length r \<and> (i = a) \<noteq> (j = a)
       \<and> d < length (r ! i) \<and> d < length (r ! j) \<longrightarrow>
     minimum_image ar (box_size ! d)
       (rnd ar (translate r box_size a d s ! j ! d - translate r box_size a d s ! i ! d))
     = minimum_image ar (box_size ! d) (rnd ar (r ! j ! d - r ! i ! d))"
  shows "compute_bond_forces__plain ar f_bonds (translate r box_size a d s) bonds_2 box_size
       = compute_bond_forces__plain ar f_bonds r bonds_2 box_size"
  unfolding compute_bond_forces__plain_def
proof (rule for_each_cong_set)
  fix b :: "nat \<times> nat \<times> real \<times> real" and st
  assume bs: "b \<in> set bonds_2"
  obtain i j r0 k where b: "b = (i, j, r0, k)" by (cases b)
  from assms bs b have img: "i < length r \<Longrightarrow> j < length r \<Longrightarrow> (i = a) \<noteq> (j = a)
      \<Longrightarrow> d < length (r ! i) \<Longrightarrow> d < length (r ! j) \<Longrightarrow>
        minimum_image ar (box_size ! d)
          (rnd ar (translate r box_size a d s ! j ! d - translate r box_size a d s ! i ! d))
        = minimum_image ar (box_size ! d) (rnd ar (r ! j ! d - r ! i ! d))"
    by auto
  show "bond_force ar box_size (translate r box_size a d s) b st = bond_force ar box_size r b st"
    unfolding b by (rule bond_force_translate_eq) (rule img)
qed

text \<open>
  Without rounding the minimum images agree, and with them the outcomes, unless a bond
  of the moved atom has its ends a whole number of box lengths and a half apart.
\<close>

lemma translate_component:
  "k < length r \<Longrightarrow> m < length (r ! k) \<Longrightarrow>
     translate r box_size a d s ! k ! m
       = r ! k ! m + (if k = a \<and> m = d then s * box_size ! d else 0)"
  by (auto simp: translate_nth nth_list_update)

lemma minimum_image_zero: "minimum_image ar 0 x = None"
  by (simp add: minimum_image_def fl_div_def fl_mul_def fl_sub_def fl_around_def
      split: option.splits)

lemma plain_translate_exact:
  assumes "\<forall>(i, j, r0, k) \<in> set bonds_2.
     i < length r \<and> j < length r \<and> (i = a) \<noteq> (j = a)
       \<and> d < length (r ! i) \<and> d < length (r ! j) \<longrightarrow>
     (r ! j ! d - r ! i ! d) / box_size ! d
       - of_int \<lfloor>(r ! j ! d - r ! i ! d) / box_size ! d\<rfloor> \<noteq> 1 / 2"
  shows "compute_bond_forces__plain exact_arith f_bonds (translate r box_size a d (of_int t))
           bonds_2 box_size
       = compute_bond_forces__plain exact_arith f_bonds r bonds_2 box_size"
proof (rule plain_translate_eq, clarify)
  fix i j r0 k
  assume b: "(i, j, r0, k) \<in> set bonds_2"
    and i: "i < length r" and j: "j < length r" and ne: "(i = a) \<noteq> (j = a)"
    and di: "d < length (r ! i)" and dj: "d < length (r ! j)"
  let ?l = "box_size ! d"
  let ?x = "r ! j ! d - r ! i ! d"
  from assms b i j ne di dj have nt: "?x / ?l - of_int \<lfloor>?x / ?l\<rfloor> \<noteq> 1 / 2" by auto
  have sh: "translate r box_size a d (of_int t) ! j ! d - translate r box_size a d (of_int t) ! i ! d
      = ?x + of_int ((if j = a then t else 0) - (if i = a then t else 0)) * ?l"
    using i j di dj by (simp add: translate_component algebra_simps)
  show "minimum_image exact_arith ?l
          (rnd exact_arith (translate r box_size a d (of_int t) ! j ! d
                             - translate r box_size a d (of_int t) ! i ! d))
      = minimum_image exact_arith ?l (rnd exact_arith ?x)"
  proof (cases "?l = 0")
    case True
    then show ?thesis by (simp add: minimum_image_zero)
  next
    case False
    from minimum_image_exact_shift [OF False nt] show ?thesis
      unfolding sh exact_fields .
  qed
qed

subsection \<open>Two bonded atoms\<close>











subsection \<open>The claim\<close>




section \<open>Properties of the thermostat\<close>

subsection \<open>Selecting and assigning rows\<close>

lemma gather_in_range:
  "(\<forall>k \<in> set ks. k < length xs) \<Longrightarrow> gather xs ks = Inr (map (\<lambda>k. xs ! k) ks)"
  by (induction ks) auto

lemma gather_InrD:
  "gather xs ks = Inr ys \<Longrightarrow> (\<forall>k \<in> set ks. k < length xs) \<and> ys = map (\<lambda>k. xs ! k) ks"
  by (induction ks arbitrary: ys) (auto split: sum.splits if_splits)

lemma gather_Inr:
  "gather xs ks = Inr ys \<longleftrightarrow> (\<forall>k \<in> set ks. k < length xs) \<and> ys = map (\<lambda>k. xs ! k) ks"
  using gather_in_range [of ks xs] gather_InrD [of xs ks ys] by auto

lemma gather_all_acc:
  "for_each (\<lambda>p sel. case gather (proc_velocity p) (ind (proc_names p) grp) of
                        Inl e \<Rightarrow> Inl e
                      | Inr rows \<Rightarrow> Inr (sel @ [rows])) procs acc = Inr sel
   \<longleftrightarrow> (\<forall>p \<in> set procs. \<forall>k \<in> set (ind (proc_names p) grp). k < length (proc_velocity p))
       \<and> sel = acc @ selected procs grp"
proof (induction procs arbitrary: acc)
  case Nil
  then show ?case by (auto simp: selected_def)
next
  case (Cons p procs)
  show ?case
  proof (cases "gather (proc_velocity p) (ind (proc_names p) grp)")
    case (Inl e)
    then have "\<not> (\<forall>k \<in> set (ind (proc_names p) grp). k < length (proc_velocity p))"
      using gather_Inr [of "proc_velocity p" "ind (proc_names p) grp"] by auto
    with Inl show ?thesis by auto
  next
    case (Inr rows)
    then have r: "(\<forall>k \<in> set (ind (proc_names p) grp). k < length (proc_velocity p))"
      "rows = map (\<lambda>k. proc_velocity p ! k) (ind (proc_names p) grp)"
      by (simp_all add: gather_Inr)
    show ?thesis
      using Inr r Cons.IH [of "acc @ [rows]"]
      by (auto simp: selected_def)
  qed
qed

lemma gather_all:
  "for_each (\<lambda>p sel. case gather (proc_velocity p) (ind (proc_names p) grp) of
                        Inl e \<Rightarrow> Inl e
                      | Inr rows \<Rightarrow> Inr (sel @ [rows])) procs [] = Inr sel
   \<longleftrightarrow> (\<forall>p \<in> set procs. \<forall>k \<in> set (ind (proc_names p) grp). k < length (proc_velocity p))
       \<and> sel = selected procs grp"
  using gather_all_acc [of grp procs "[]" sel] by simp

lemma gather_error: "gather xs ks = Inl e \<Longrightarrow> e = IndexError"
  by (induction ks) (auto split: sum.splits if_splits)

lemma gather_all_error:
  "for_each (\<lambda>p sel. case gather (proc_velocity p) (ind (proc_names p) grp) of
                        Inl e \<Rightarrow> Inl e
                      | Inr rows \<Rightarrow> Inr (sel @ [rows])) procs acc = Inl e
   \<Longrightarrow> e = IndexError"
proof (induction procs arbitrary: acc)
  case Nil
  then show ?case by simp
next
  case (Cons p procs)
  from Cons show ?case
    by (auto split: sum.splits dest: gather_error)
qed

lemma gather_all_cases:
  "for_each (\<lambda>p sel. case gather (proc_velocity p) (ind (proc_names p) grp) of
                        Inl e \<Rightarrow> Inl e
                      | Inr rows \<Rightarrow> Inr (sel @ [rows])) procs [] =
     (if in_range procs grp then Inr (selected procs grp) else Inl IndexError)"
proof (cases "for_each (\<lambda>p sel. case gather (proc_velocity p) (ind (proc_names p) grp) of
                        Inl e \<Rightarrow> Inl e
                      | Inr rows \<Rightarrow> Inr (sel @ [rows])) procs []")
  case (Inl e)
  then have "e = IndexError" by (rule gather_all_error)
  moreover have "\<not> in_range procs grp"
    using Inl gather_all [of grp procs "selected procs grp"]
    by (auto simp: in_range_def list_all_iff)
  ultimately show ?thesis using Inl by simp
next
  case (Inr sel)
  then show ?thesis
    using gather_all [of grp procs sel] by (auto simp: in_range_def list_all_iff)
qed

lemma map2_map_same: "map2 f xs (map h xs) = map (\<lambda>x. f x (h x)) xs"
  by (induction xs) auto


lemma thermostat_group_eq:
  "thermostat_group ar D random_gaussian random_chi_squared grp (procs, config, g) =
     (if \<not> in_range procs grp then Inl IndexError
      else if tau config = 0 then Inl ZeroDivisionError
      else
        (case random_chi_squared (N_f (group_n_particles procs grp) - 1)
                (snd (random_gaussian g)) of
           Inl e \<Rightarrow> Inl e
         | Inr (SNf, g') \<Rightarrow>
             Inr (map (\<lambda>p. p\<lparr>proc_velocity :=
                        scatter (proc_velocity p) (ind (proc_names p) grp)
                          (if group_n_particles procs grp > 0
                           then rescaled ar (group_com ar D procs grp)
                                  (fl_sqrt ar (group_alpha2 ar D procs config grp
                                                 (fst (random_gaussian g)) SNf))
                                  (map (\<lambda>k. proc_velocity p ! k) (ind (proc_names p) grp))
                           else map (\<lambda>row. map2 (fl_add ar)
                                              (map2 (fl_sub ar) row (group_com ar D procs grp))
                                              (group_com ar D procs grp))
                                  (map (\<lambda>k. proc_velocity p ! k) (ind (proc_names p) grp)))\<rparr>)
                    procs,
                  config\<lparr>thermostat_work :=
                    fl_add ar (thermostat_work config)
                      (if group_n_particles procs grp > 0
                       then fl_mul ar (group_K ar D procs config grp)
                              (fl_sub ar (group_alpha2 ar D procs config grp
                                            (fst (random_gaussian g)) SNf) (Some 1))
                       else Some 0)\<rparr>,
                  g')))"
proof -
  obtain R g1 where rg: "random_gaussian g = (R, g1)" by (cases "random_gaussian g")
  show ?thesis
    unfolding thermostat_group_def
    by (auto simp: gather_all_cases decay_def rg Let_def group_K_def group_alpha2_def
        group_com_def group_c_def rescaled_def velocity_clean_def selected_def map2_map_same
        comp_def split: sum.splits prod.splits)
qed

subsection \<open>What a group gets back\<close>

lemma scatter_nth_other:
  "k \<notin> set ks \<Longrightarrow> scatter xs ks ys ! k = xs ! k"
  by (induction xs ks ys rule: scatter.induct) auto

lemma scatter_length [simp]: "length (scatter xs ks ys) = length xs"
  by (induction xs ks ys rule: scatter.induct) auto

lemma gather_scatter:
  assumes "distinct ks" and "length ys = length ks" and "\<forall>k \<in> set ks. k < length xs"
  shows "map (\<lambda>k. scatter xs ks ys ! k) ks = ys"
  using assms
proof (induction ks arbitrary: xs ys)
  case Nil
  then show ?case by simp
next
  case (Cons k ks)
  then obtain y ys' where ys: "ys = y # ys'" by (cases ys) auto
  from Cons.prems have k: "k \<notin> set ks" "k < length xs" by auto
  have "map (\<lambda>q. scatter (xs[k := y]) ks ys' ! q) ks = ys'"
    by (rule Cons.IH) (use Cons.prems ys in auto)
  moreover have "scatter (xs[k := y]) ks ys' ! k = y"
    using k by (simp add: scatter_nth_other)
  ultimately show ?case by (simp add: ys)
qed

lemma ind_distinct: "distinct (ind nms grp)"
  by (simp add: ind_def)

lemma rescaled_length [simp]: "length (rescaled ar m alpha rows) = length rows"
  by (simp add: rescaled_def)

lemma selected_after:
  assumes "in_range procs grp"
  shows "selected
           (map (\<lambda>p. p\<lparr>proc_velocity :=
                   scatter (proc_velocity p) (ind (proc_names p) grp)
                     (rescaled ar m alpha (map (\<lambda>k. proc_velocity p ! k) (ind (proc_names p) grp)))\<rparr>)
              procs) grp
         = map (rescaled ar m alpha) (selected procs grp)"
proof -
  have "\<And>p. p \<in> set procs \<Longrightarrow>
      map (\<lambda>k. scatter (proc_velocity p) (ind (proc_names p) grp)
                 (rescaled ar m alpha (map (\<lambda>k. proc_velocity p ! k) (ind (proc_names p) grp))) ! k)
        (ind (proc_names p) grp)
      = rescaled ar m alpha (map (\<lambda>k. proc_velocity p ! k) (ind (proc_names p) grp))"
    using assms
    by (intro gather_scatter) (auto simp: ind_distinct in_range_def list_all_iff)
  then show ?thesis
    by (simp add: selected_def comp_def)
qed

lemma selected_rescaled:
  assumes run: "thermostat_group ar D random_gaussian random_chi_squared grp (procs, config, g)
             = Inr (procs', config', g')"
    and n: "0 < group_n_particles procs grp"
  shows "\<exists>SNf g1. random_chi_squared (N_f (group_n_particles procs grp) - 1)
                    (snd (random_gaussian g)) = Inr (SNf, g1)
       \<and> selected procs' grp
           = map (rescaled ar (group_com ar D procs grp)
                    (fl_sqrt ar (group_alpha2 ar D procs config grp (fst (random_gaussian g)) SNf)))
               (selected procs grp)"
proof -
  from run have ir: "in_range procs grp"
    by (auto simp: thermostat_group_eq split: if_splits)
  from run n ir obtain SNf g1 where
    chi: "random_chi_squared (N_f (group_n_particles procs grp) - 1)
            (snd (random_gaussian g)) = Inr (SNf, g1)"
    and p: "procs' = map (\<lambda>p. p\<lparr>proc_velocity :=
                        scatter (proc_velocity p) (ind (proc_names p) grp)
                          (rescaled ar (group_com ar D procs grp)
                                  (fl_sqrt ar (group_alpha2 ar D procs config grp
                                                 (fst (random_gaussian g)) SNf))
                                  (map (\<lambda>k. proc_velocity p ! k) (ind (proc_names p) grp)))\<rparr>)
                    procs"
    by (auto simp: thermostat_group_eq split: if_splits sum.splits)
  show ?thesis
    using chi unfolding p by (simp add: selected_after [OF ir])
qed

subsection \<open>A group without particles\<close>

lemma empty_group_ind:
  assumes "group_n_particles procs grp = 0" and "p \<in> set procs"
  shows "ind (proc_names p) grp = []"
proof -
  have "group_n_particles procs grp
      = int (sum_list (map (\<lambda>p. length (ind (proc_names p) grp)) procs))"
    unfolding group_n_particles_def by (induction procs) simp_all
  with assms(1) have "sum_list (map (\<lambda>p. length (ind (proc_names p) grp)) procs) = 0" by simp
  with assms(2) show ?thesis by (auto simp: sum_list_eq_0_iff)
qed

lemma empty_group_in_range:
  assumes "group_n_particles procs grp = 0"
  shows "in_range procs grp"
  using empty_group_ind [OF assms] by (simp add: in_range_def list_all_iff)

lemma empty_group_unchanged:
  assumes "group_n_particles procs grp = 0"
  shows "map (\<lambda>p. p\<lparr>proc_velocity :=
                 scatter (proc_velocity p) (ind (proc_names p) grp) (f p)\<rparr>) procs = procs"
proof -
  have "\<And>p. p \<in> set procs \<Longrightarrow>
      p\<lparr>proc_velocity := scatter (proc_velocity p) (ind (proc_names p) grp) (f p)\<rparr> = p"
    using empty_group_ind [OF assms] by simp
  then show ?thesis by (simp add: map_idI)
qed

lemma empty_group_com:
  assumes "group_n_particles procs grp = 0"
  shows "group_com ar D procs grp = replicate D None"
proof -
  have z: "\<And>x. fl_div ar x (Some 0) = None"
    by (simp add: fl_div_def split: option.splits)
  show ?thesis
    unfolding group_com_def com_mean_def com_velocity_def assms
    by (simp add: z map_replicate_const)
qed


subsection \<open>The scale factor in the arithmetic without rounding\<close>

lemma alpha2_exact:
  "alpha2 exact_arith (Some c) R SNf (Some Kt) Nf K =
     (case K of
        None \<Rightarrow> None
      | Some k \<Rightarrow>
          if of_int Nf * k = 0 \<or> c * (1 - c) * Kt / (of_int Nf * k) < 0 then None
          else Some (spec_alpha2 c R SNf Kt (of_int Nf) k))"
  by (simp add: alpha2_def spec_alpha2_def exact_fields power2_eq_square split: option.splits)

lemma group_c_exact:
  "tau config \<noteq> 0 \<Longrightarrow>
     group_c exact_arith config
       = Some (exp (- (time_step config * respa_inner config) / tau config))"
  by (simp add: group_c_def exact_fields)

lemma K_target_exact:
  "K_target exact_arith n T = Some (1.5 * (2.479 / 298.0) * of_int n * T)"
  by (simp add: K_target_def exact_fields)

subsection \<open>Examples\<close>

lemma two_particles_ind: "ind [''A'', ''A''] [''A''] = [0, 1]"
  by code_simp

lemma one_particle_ind: "ind [''A''] [''A''] = [0]" "ind [''A''] [''B''] = []"
  by code_simp+

lemma upt_3: "[0..<3] = [0, 1, 2]"
  by code_simp

lemma two_particles_n: "group_n_particles two_particles [''A''] = 2"
  by (simp add: group_n_particles_def two_particles_def two_particles_ind)

lemma two_particles_selected:
  "selected two_particles [''A''] = [[[Some 1, Some 0, Some 0], [Some (- 1), Some 0, Some 0]]]"
  by (simp add: selected_def two_particles_def two_particles_ind)

lemma two_particles_com:
  "group_com exact_arith 3 two_particles [''A''] = [Some 0, Some 0, Some 0]"
  by (simp add: group_com_def com_mean_def com_velocity_def col_sum_def upt_3
      two_particles_selected two_particles_n exact_fields)

lemma couple_A_fields:
  "mass couple_A = 2" "time_step couple_A = 1" "respa_inner couple_A = 1" "tau couple_A = 1"
  "target_temperature couple_A = 298" "thermostat_work couple_A = Some 0"
  by (simp_all add: couple_A_def)

lemma two_particles_K: "group_K exact_arith 3 two_particles couple_A [''A''] = Some 2"
  unfolding group_K_def two_particles_com
  by (simp add: kinetic_def velocity_clean_def two_particles_selected couple_A_fields
      exact_fields fl_sq_def)

lemma two_particles_in_range: "in_range two_particles [''A'']"
  by (simp add: in_range_def two_particles_def two_particles_ind)

lemma two_particles_alpha2:
  "group_alpha2 exact_arith 3 two_particles couple_A [''A''] 1 5
     = Some (spec_alpha2 (exp (- 1)) 1 5 (1.5 * (2.479 / 298.0) * 2 * 298) 6 2)"
proof -
  have e: "0 \<le> exp (- 1 :: real) * (1 - exp (- 1))"
    by (intro mult_nonneg_nonneg) simp_all
  have c: "group_c exact_arith couple_A = Some (exp (- 1))"
    by (simp add: group_c_exact couple_A_fields)
  show ?thesis
    unfolding group_alpha2_def c K_target_exact alpha2_exact two_particles_K two_particles_n
      N_f_def couple_A_fields
    using e by (simp add: not_less zero_le_mult_iff)
qed

lemma two_particles_run:
  "thermostat_group exact_arith 3 (stub_gaussian 1) (stub_chi_squared 5) [''A'']
     (two_particles, couple_A, []) =
   Inr (map (\<lambda>p. p\<lparr>proc_velocity :=
                 scatter (proc_velocity p) (ind (proc_names p) [''A''])
                   (rescaled exact_arith (group_com exact_arith 3 two_particles [''A''])
                      (fl_sqrt exact_arith
                         (group_alpha2 exact_arith 3 two_particles couple_A [''A''] 1 5))
                      (map (\<lambda>k. proc_velocity p ! k) (ind (proc_names p) [''A''])))\<rparr>)
          two_particles,
        couple_A\<lparr>thermostat_work :=
          fl_add exact_arith (thermostat_work couple_A)
            (fl_mul exact_arith (group_K exact_arith 3 two_particles couple_A [''A''])
               (fl_sub exact_arith (group_alpha2 exact_arith 3 two_particles couple_A [''A''] 1 5)
                  (Some 1)))\<rparr>,
        [5])"
  unfolding thermostat_group_eq
  by (simp add: two_particles_in_range two_particles_n stub_gaussian_def stub_chi_squared_def
      N_f_def couple_A_fields)

lemma one_particle_B: "group_n_particles one_particle [''B''] = 0"
  by (simp add: group_n_particles_def one_particle_def one_particle_ind)

lemma one_particle_n: "group_n_particles one_particle [''A''] = 1"
  by (simp add: group_n_particles_def one_particle_def one_particle_ind)

lemma one_particle_selected:
  "selected one_particle [''A''] = [[[Some 1, Some 2, Some 3]]]"
  by (simp add: selected_def one_particle_def one_particle_ind)

lemma one_particle_com:
  "group_com exact_arith 3 one_particle [''A''] = [Some 1, Some 2, Some 3]"
  by (simp add: group_com_def com_mean_def com_velocity_def col_sum_def upt_3
      one_particle_selected one_particle_n exact_fields)

lemma one_particle_K: "group_K exact_arith 3 one_particle couple_A [''A''] = Some 0"
  unfolding group_K_def one_particle_com
  by (simp add: kinetic_def velocity_clean_def one_particle_selected couple_A_fields
      exact_fields fl_sq_def)

lemma one_particle_alpha2: "group_alpha2 exact_arith 3 one_particle couple_A [''A''] 1 5 = None"
proof -
  have c: "group_c exact_arith couple_A = Some (exp (- 1))"
    by (simp add: group_c_exact couple_A_fields)
  show ?thesis
    unfolding group_alpha2_def c K_target_exact alpha2_exact one_particle_K by simp
qed

lemma one_particle_in_range: "in_range one_particle [''A'']"
  by (simp add: in_range_def one_particle_def one_particle_ind)

lemma one_particle_run:
  "thermostat_group exact_arith 3 (stub_gaussian 1) (stub_chi_squared 5) [''A'']
     (one_particle, couple_A, [])
     = Inr ([\<lparr>proc_velocity = [[None, None, None]], proc_names = [''A'']\<rparr>],
            couple_A\<lparr>thermostat_work := None\<rparr>, [2])"
  unfolding thermostat_group_eq
  apply (simp add: one_particle_in_range one_particle_n stub_gaussian_def stub_chi_squared_def
      N_f_def couple_A_fields one_particle_alpha2 one_particle_com)
  apply (simp add: one_particle_def one_particle_ind rescaled_def)
  done

lemma nan_particle_com:
  "group_com exact_arith 3 [\<lparr>proc_velocity = [[None, None, None]], proc_names = [''A'']\<rparr>] [''A'']
     = [None, None, None]"
  by (simp add: group_com_def com_mean_def com_velocity_def col_sum_def upt_3 selected_def
      group_n_particles_def one_particle_ind exact_fields)

lemma two_particles_alpha:
  "fl_sqrt exact_arith (group_alpha2 exact_arith 3 two_particles couple_A [''A''] 1 5) \<noteq> None"
proof -
  have c: "0 < exp (- 1 :: real)" "exp (- 1 :: real) < 1" by simp_all
  then have e: "0 \<le> exp (- 1 :: real) * (1 - exp (- 1))"
    by (intro mult_nonneg_nonneg) simp_all
  have "0 \<le> spec_alpha2 (exp (- 1)) 1 5 (1.5 * (2.479 / 298.0) * 2 * 298) 6 2"
    unfolding spec_alpha2_def using c e
    by (intro add_nonneg_nonneg mult_nonneg_nonneg divide_nonneg_nonneg real_sqrt_ge_zero)
       simp_all
  then show ?thesis
    unfolding two_particles_alpha2 by (simp add: not_less)
qed

subsection \<open>The centre of mass in the arithmetic without rounding\<close>

lemma sum_list_concat_map:
  "sum_list (map f (concat xss)) = sum_list (map (\<lambda>xs. sum_list (map f xs)) xss)"
  by (induction xss) simp_all

lemma sum_list_affine:
  "sum_list (map (\<lambda>x. (f x - m) * a + m) xs)
     = (sum_list (map f xs) - real (length xs) * m) * a + real (length xs) * (m :: real)"
  by (induction xs) (simp_all add: algebra_simps)

lemma col_sum_exact:
  assumes "\<forall>row \<in> set rows. length row = D"
  shows "col_sum exact_arith D (map (map Some) rows)
       = map (\<lambda>c. Some (sum_list (map (\<lambda>row. row ! c) rows))) [0..<D]"
  unfolding col_sum_def
proof (rule map_cong [OF refl])
  fix c assume "c \<in> set [0..<D]"
  then have c: "c < D" by simp
  have "map (\<lambda>row. row ! c) (map (map Some) rows) = map Some (map (\<lambda>row. row ! c) rows)"
    using assms c by simp
  then show "np_sum_axis0 exact_arith (map (\<lambda>row. row ! c) (map (map Some) rows))
      = Some (sum_list (map (\<lambda>row. row ! c) rows))"
    by (simp only: exact_fields exact_sum_Some)
qed

lemma com_velocity_exact:
  assumes "\<forall>rows \<in> set V. \<forall>row \<in> set rows. length row = D"
  shows "com_velocity exact_arith D (map (map (map Some)) V)
       = map (\<lambda>c. Some (sum_list (map (\<lambda>row. row ! c) (concat V)))) [0..<D]"
  unfolding com_velocity_def
proof (rule map_cong [OF refl])
  fix c assume "c \<in> set [0..<D]"
  then have c: "c < D" by simp
  have "map (\<lambda>rows. col_sum exact_arith D rows ! c) (map (map (map Some)) V)
      = map Some (map (\<lambda>rows. sum_list (map (\<lambda>row. row ! c) rows)) V)"
    using assms c by (simp add: col_sum_exact)
  then show "allreduce_sum exact_arith
         (map (\<lambda>rows. col_sum exact_arith D rows ! c) (map (map (map Some)) V))
      = Some (sum_list (map (\<lambda>row. row ! c) (concat V)))"
    by (simp only: exact_fields exact_sum_Some sum_list_concat_map)
qed

lemma com_mean_exact:
  assumes "\<forall>rows \<in> set V. \<forall>row \<in> set rows. length row = D" and "n \<noteq> 0"
  shows "com_mean exact_arith D (map (map (map Some)) V) n
       = map Some (map (\<lambda>c. sum_list (map (\<lambda>row. row ! c) (concat V)) / of_int n) [0..<D])"
  using assms(2) by (simp add: com_mean_def com_velocity_exact [OF assms(1)])

lemma rescaled_row_exact:
  "map2 (fl_add exact_arith)
     (map (\<lambda>x. fl_mul exact_arith x (Some a)) (map2 (fl_sub exact_arith) (map Some row) (map Some M)))
     (map Some M)
   = map Some (map2 (\<lambda>x mc. (x - mc) * a + mc) row M)"
proof (induction row arbitrary: M)
  case Nil
  then show ?case by simp
next
  case (Cons x row)
  then show ?case by (cases M) simp_all
qed

lemma rescaled_exact:
  "rescaled exact_arith (map Some M) (Some a) (map (map Some) rows)
     = map (map Some) (map (\<lambda>row. map2 (\<lambda>x mc. (x - mc) * a + mc) row M) rows)"
  unfolding rescaled_def
  by (induction rows) (simp_all only: list.map rescaled_row_exact)

lemma com_mean_rescaled_exact:
  assumes len: "\<forall>rows \<in> set V. \<forall>row \<in> set rows. length row = D"
    and n: "n = int (length (concat V))" "n \<noteq> 0"
  shows "com_mean exact_arith D
           (map (rescaled exact_arith (com_mean exact_arith D (map (map (map Some)) V) n) (Some a))
              (map (map (map Some)) V)) n
       = com_mean exact_arith D (map (map (map Some)) V) n"
proof -
  define T where "T c = sum_list (map (\<lambda>row. row ! c) (concat V))" for c
  define M where "M = map (\<lambda>c. T c / of_int n) [0..<D]"
  define k where "k = (\<lambda>row :: real list. map2 (\<lambda>x mc. (x - mc) * a + mc) row M)"
  have m: "com_mean exact_arith D (map (map (map Some)) V) n = map Some M"
    unfolding M_def T_def by (rule com_mean_exact [OF len n(2)])
  have lM: "length M = D" by (simp add: M_def)
  have new: "map (rescaled exact_arith (map Some M) (Some a)) (map (map (map Some)) V)
      = map (map (map Some)) (map (map k) V)"
    by (simp add: rescaled_exact k_def)
  have len': "\<forall>rows \<in> set (map (map k) V). \<forall>row \<in> set rows. length row = D"
    using len lM by (auto simp: k_def)
  have row: "\<And>row c. row \<in> set (concat V) \<Longrightarrow> c < D \<Longrightarrow> k row ! c = (row ! c - M ! c) * a + M ! c"
    using len lM by (auto simp: k_def)
  have T': "\<And>c. c < D \<Longrightarrow> sum_list (map (\<lambda>row. row ! c) (concat (map (map k) V))) = T c"
  proof -
    fix c assume c: "c < D"
    have "concat (map (map k) V) = map k (concat V)" by (simp add: map_concat)
    then have "sum_list (map (\<lambda>row. row ! c) (concat (map (map k) V)))
        = sum_list (map (\<lambda>row. k row ! c) (concat V))"
      by (simp add: comp_def)
    also have "\<dots> = sum_list (map (\<lambda>row. (row ! c - M ! c) * a + M ! c) (concat V))"
      by (rule arg_cong [where f = sum_list], rule map_cong [OF refl]) (simp add: row c)
    also have "\<dots> = (T c - real (length (concat V)) * (M ! c)) * a
                      + real (length (concat V)) * (M ! c)"
      unfolding T_def by (rule sum_list_affine)
    also have "real (length (concat V)) * (M ! c) = T c"
      using n c by (simp add: M_def)
    finally show "sum_list (map (\<lambda>row. row ! c) (concat (map (map k) V))) = T c"
      by simp
  qed
  have "com_mean exact_arith D (map (map (map Some)) (map (map k) V)) n
      = map Some (map (\<lambda>c. sum_list (map (\<lambda>row. row ! c) (concat (map (map k) V))) / of_int n)
                    [0..<D])"
    by (rule com_mean_exact [OF len' n(2)])
  also have "\<dots> = map Some M"
    unfolding M_def by (simp add: T')
  finally show ?thesis
    unfolding m new by simp
qed


lemma group_n_particles_selected:
  "group_n_particles procs grp = int (length (concat (selected procs grp)))"
  unfolding group_n_particles_def selected_def
  by (induction procs) simp_all

lemma group_n_particles_names:
  "group_n_particles (map (\<lambda>p. p\<lparr>proc_velocity := f p\<rparr>) procs) grp = group_n_particles procs grp"
  by (simp add: group_n_particles_def comp_def)

lemma finite_row: "None \<notin> set row \<Longrightarrow> map Some (map the row) = row"
  by (induction row) auto

lemma finite_selected:
  assumes "\<forall>rows \<in> set sel. \<forall>row \<in> set rows. length row = D \<and> None \<notin> set row"
  shows "map (map (map Some)) (map (map (map the)) sel) = sel"
    and "\<forall>rows \<in> set (map (map (map the)) sel). \<forall>row \<in> set rows. length row = D"
    and "length (concat (map (map (map the)) sel)) = length (concat sel)"
proof -
  have "\<And>rows. rows \<in> set sel \<Longrightarrow> map (map Some) (map (map the) rows) = rows"
  proof -
    fix rows assume "rows \<in> set sel"
    with assms have "\<And>row. row \<in> set rows \<Longrightarrow> map Some (map the row) = row"
      by (intro finite_row) auto
    then show "map (map Some) (map (map the) rows) = rows"
      by (simp add: map_idI)
  qed
  then show "map (map (map Some)) (map (map (map the)) sel) = sel"
    by (simp add: map_idI)
  show "\<forall>rows \<in> set (map (map (map the)) sel). \<forall>row \<in> set rows. length row = D"
    using assms by auto
  show "length (concat (map (map (map the)) sel)) = length (concat sel)"
    by (simp add: length_concat comp_def)
qed

lemma com_conserved_exact:
  assumes ir: "in_range procs grp"
    and n: "0 < group_n_particles procs grp"
    and fin: "\<forall>rows \<in> set (selected procs grp). \<forall>row \<in> set rows. length row = D \<and> None \<notin> set row"
    and new: "selected procs' grp
                = map (rescaled exact_arith (group_com exact_arith D procs grp) (Some a))
                    (selected procs grp)"
    and names: "group_n_particles procs' grp = group_n_particles procs grp"
  shows "group_com exact_arith D procs' grp = group_com exact_arith D procs grp"
proof -
  define V where "V = map (map (map the)) (selected procs grp)"
  have sel: "selected procs grp = map (map (map Some)) V"
    and len: "\<forall>rows \<in> set V. \<forall>row \<in> set rows. length row = D"
    and cnt: "length (concat V) = length (concat (selected procs grp))"
    unfolding V_def using finite_selected [OF fin] by simp_all
  have c: "group_n_particles procs grp = int (length (concat V))"
    by (simp add: group_n_particles_selected cnt)
  have nz: "group_n_particles procs grp \<noteq> 0" using n by simp
  show ?thesis
    unfolding group_com_def new names
    unfolding sel
    by (rule com_mean_rescaled_exact [OF len c nz])
qed

subsection \<open>The claims\<close>

text \<open>
  C7: for a coupling group with \<open>N > 0\<close> particles and generators that deliver the
  fixed values \<open>R\<close> and \<open>SNf\<close>, a call that returns has added
  \<open>dK = K (alpha2 - 1)\<close> to the thermostat work, where \<open>K\<close> is the kinetic energy of
  the group without its centre-of-mass motion and \<open>alpha2\<close> is the value of
  \<open>c + (1 - c) (SNf + R\<^sup>2) K_target / (N_f K) + 2 R sqrt (c (1 - c) K_target / (N_f K))\<close>
  with \<open>K_target = 1.5 (2.479 / 298.0) N T\<close> and \<open>N_f = 3 N\<close>, each operation rounded
  as the machine rounds it. Read without rounding, \<open>alpha2\<close> is the closed formula of
  the specification over the real numbers wherever that formula is defined; where it
  divides by zero or takes the root of a negative number, \<open>alpha2\<close> is not finite.
\<close>

theorem C7_scale_factor_and_work:
  assumes "thermostat_group ar D (stub_gaussian R) (stub_chi_squared SNf) grp (procs, config, g)
             = Inr (procs', config', g')"
    and "0 < group_n_particles procs grp"
  shows "thermostat_work config'
           = fl_add ar (thermostat_work config)
               (fl_mul ar (group_K ar D procs config grp)
                  (fl_sub ar (group_alpha2 ar D procs config grp R SNf) (Some 1)))
       \<and> group_alpha2 ar D procs config grp R SNf
           = fl_add ar
               (fl_add ar (group_c ar config)
                  (fl_div ar
                     (fl_mul ar
                        (fl_mul ar (fl_sub ar (Some 1) (group_c ar config))
                           (fl_add ar (Some SNf) (py_sq ar R)))
                        (fl_mul ar
                           (fl_mul ar (fl_mul ar (Some 1.5) (fl_div ar (rnd ar 2.479) (Some 298.0)))
                              (Some (of_int (group_n_particles procs grp))))
                           (Some (target_temperature config))))
                     (fl_mul ar (Some (of_int (3 * group_n_particles procs grp)))
                        (group_K ar D procs config grp))))
               (fl_mul ar (fl_mul ar (Some 2) (Some R))
                  (fl_sqrt ar
                     (fl_div ar
                        (fl_mul ar
                           (fl_mul ar (group_c ar config) (fl_sub ar (Some 1) (group_c ar config)))
                           (fl_mul ar
                              (fl_mul ar
                                 (fl_mul ar (Some 1.5) (fl_div ar (rnd ar 2.479) (Some 298.0)))
                                 (Some (of_int (group_n_particles procs grp))))
                              (Some (target_temperature config))))
                        (fl_mul ar (Some (of_int (3 * group_n_particles procs grp)))
                           (group_K ar D procs config grp)))))
       \<and> group_alpha2 exact_arith D procs config grp R SNf
           = (case group_K exact_arith D procs config grp of
                None \<Rightarrow> None
              | Some k \<Rightarrow>
                  if 3 * of_int (group_n_particles procs grp) * k = 0
                     \<or> exp (- (time_step config * respa_inner config) / tau config)
                         * (1 - exp (- (time_step config * respa_inner config) / tau config))
                         * (1.5 * (2.479 / 298.0) * of_int (group_n_particles procs grp)
                              * target_temperature config)
                         / (3 * of_int (group_n_particles procs grp) * k) < 0
                  then None
                  else Some (spec_alpha2
                               (exp (- (time_step config * respa_inner config) / tau config))
                               R SNf
                               (1.5 * (2.479 / 298.0) * of_int (group_n_particles procs grp)
                                  * target_temperature config)
                               (3 * of_int (group_n_particles procs grp)) k))"
proof (intro conjI)
  from assms show "thermostat_work config'
           = fl_add ar (thermostat_work config)
               (fl_mul ar (group_K ar D procs config grp)
                  (fl_sub ar (group_alpha2 ar D procs config grp R SNf) (Some 1)))"
    by (auto simp: thermostat_group_eq stub_gaussian_def stub_chi_squared_def
        split: if_splits)
next
  show "group_alpha2 ar D procs config grp R SNf
           = fl_add ar
               (fl_add ar (group_c ar config)
                  (fl_div ar
                     (fl_mul ar
                        (fl_mul ar (fl_sub ar (Some 1) (group_c ar config))
                           (fl_add ar (Some SNf) (py_sq ar R)))
                        (fl_mul ar
                           (fl_mul ar (fl_mul ar (Some 1.5) (fl_div ar (rnd ar 2.479) (Some 298.0)))
                              (Some (of_int (group_n_particles procs grp))))
                           (Some (target_temperature config))))
                     (fl_mul ar (Some (of_int (3 * group_n_particles procs grp)))
                        (group_K ar D procs config grp))))
               (fl_mul ar (fl_mul ar (Some 2) (Some R))
                  (fl_sqrt ar
                     (fl_div ar
                        (fl_mul ar
                           (fl_mul ar (group_c ar config) (fl_sub ar (Some 1) (group_c ar config)))
                           (fl_mul ar
                              (fl_mul ar
                                 (fl_mul ar (Some 1.5) (fl_div ar (rnd ar 2.479) (Some 298.0)))
                                 (Some (of_int (group_n_particles procs grp))))
                              (Some (target_temperature config))))
                        (fl_mul ar (Some (of_int (3 * group_n_particles procs grp)))
                           (group_K ar D procs config grp)))))"
    by (simp add: group_alpha2_def alpha2_def K_target_def N_f_def)
next
  from assms(1) have t: "tau config \<noteq> 0"
    by (auto simp: thermostat_group_eq split: if_splits)
  show "group_alpha2 exact_arith D procs config grp R SNf
           = (case group_K exact_arith D procs config grp of
                None \<Rightarrow> None
              | Some k \<Rightarrow>
                  if 3 * of_int (group_n_particles procs grp) * k = 0
                     \<or> exp (- (time_step config * respa_inner config) / tau config)
                         * (1 - exp (- (time_step config * respa_inner config) / tau config))
                         * (1.5 * (2.479 / 298.0) * of_int (group_n_particles procs grp)
                              * target_temperature config)
                         / (3 * of_int (group_n_particles procs grp) * k) < 0
                  then None
                  else Some (spec_alpha2
                               (exp (- (time_step config * respa_inner config) / tau config))
                               R SNf
                               (1.5 * (2.479 / 298.0) * of_int (group_n_particles procs grp)
                                  * target_temperature config)
                               (3 * of_int (group_n_particles procs grp)) k))"
    unfolding group_alpha2_def group_c_exact [OF t] K_target_exact alpha2_exact N_f_def
    by (simp split: option.splits)
qed

theorem C7_scale_factor_and_work_witness:
  "\<exists>procs' config' g'.
     thermostat_group exact_arith 3 (stub_gaussian 1) (stub_chi_squared 5) [''A'']
       (two_particles, couple_A, []) = Inr (procs', config', g')
     \<and> 0 < group_n_particles two_particles [''A'']
     \<and> thermostat_work config'
         = Some (2 * (spec_alpha2 (exp (- 1)) 1 5 (1.5 * (2.479 / 298.0) * 2 * 298) 6 2 - 1))"
proof -
  obtain procs' config' g' where run:
    "thermostat_group exact_arith 3 (stub_gaussian 1) (stub_chi_squared 5) [''A'']
       (two_particles, couple_A, []) = Inr (procs', config', g')"
    using two_particles_run by blast
  have n: "0 < group_n_particles two_particles [''A'']"
    by (simp add: two_particles_n)
  from C7_scale_factor_and_work [OF run n]
  have "thermostat_work config'
      = fl_add exact_arith (thermostat_work couple_A)
               (fl_mul exact_arith (group_K exact_arith 3 two_particles couple_A [''A''])
                  (fl_sub exact_arith (group_alpha2 exact_arith 3 two_particles couple_A [''A''] 1 5)
                     (Some 1)))"
    by (rule conjunct1)
  then have "thermostat_work config'
      = Some (2 * (spec_alpha2 (exp (- 1)) 1 5 (1.5 * (2.479 / 298.0) * 2 * 298) 6 2 - 1))"
    unfolding two_particles_alpha2 two_particles_K couple_A_fields
    by simp
  with run n show ?thesis by blast
qed

text \<open>
  C8, as stated, fails: a group of a single particle has a nonzero particle count, the
  kinetic energy \<open>K\<close> of its motion relative to the centre of mass is zero, the scale
  factor divides by \<open>N_f K = 0\<close> and is not finite, and the particle's velocity and
  with it the centre-of-mass velocity of the group come back as \<open>nan\<close>: before the
  call the centre-of-mass velocity is \<open>(1, 2, 3)\<close>.
\<close>

theorem C8_counterexample:
  "0 < group_n_particles one_particle [''A'']
   \<and> thermostat_group exact_arith 3 (stub_gaussian 1) (stub_chi_squared 5) [''A'']
       (one_particle, couple_A, [])
     = Inr ([\<lparr>proc_velocity = [[None, None, None]], proc_names = [''A'']\<rparr>],
            couple_A\<lparr>thermostat_work := None\<rparr>, [2])
   \<and> group_com exact_arith 3 one_particle [''A''] = [Some 1, Some 2, Some 3]
   \<and> group_com exact_arith 3 [\<lparr>proc_velocity = [[None, None, None]], proc_names = [''A'']\<rparr>]
       [''A''] = [None, None, None]"
  by (simp add: one_particle_n one_particle_run one_particle_com nan_particle_com)

text \<open>
  C8, amended: for every coupling group with a nonzero particle count, a call that
  returns has replaced the velocity \<open>v\<close> of each selected particle by
  \<open>(v - m) * alpha + m\<close> (\<open>rescaled\<close>), where \<open>m\<close> is the centre-of-mass velocity of
  the group before the call, the same vector that was removed, and \<open>alpha\<close> is the
  square root of the scale factor, in whatever way the machine rounds each operation.
  Read without rounding, the centre-of-mass velocity of the group is the same before
  and after the call whenever \<open>alpha\<close> is finite and the selected velocities are rows
  of \<open>D\<close> finite numbers.
\<close>

theorem C8_centre_of_mass_readded:
  assumes "thermostat_group ar D random_gaussian random_chi_squared grp (procs, config, g)
             = Inr (procs', config', g')"
    and "0 < group_n_particles procs grp"
  shows "\<exists>SNf g1 alpha.
           random_chi_squared (N_f (group_n_particles procs grp) - 1) (snd (random_gaussian g))
             = Inr (SNf, g1)
         \<and> alpha = fl_sqrt ar (group_alpha2 ar D procs config grp (fst (random_gaussian g)) SNf)
         \<and> selected procs' grp
             = map (rescaled ar (group_com ar D procs grp) alpha) (selected procs grp)
         \<and> (ar = exact_arith \<and> alpha \<noteq> None
              \<and> (\<forall>rows \<in> set (selected procs grp). \<forall>row \<in> set rows.
                    length row = D \<and> None \<notin> set row)
            \<longrightarrow> group_com ar D procs' grp = group_com ar D procs grp)"
proof -
  from assms(1) have ir: "in_range procs grp"
    by (auto simp: thermostat_group_eq split: if_splits)
  from selected_rescaled [OF assms] obtain SNf g1 where
    chi: "random_chi_squared (N_f (group_n_particles procs grp) - 1)
            (snd (random_gaussian g)) = Inr (SNf, g1)"
    and new: "selected procs' grp
           = map (rescaled ar (group_com ar D procs grp)
                    (fl_sqrt ar (group_alpha2 ar D procs config grp (fst (random_gaussian g)) SNf)))
               (selected procs grp)"
    by blast
  from assms ir have names: "group_n_particles procs' grp = group_n_particles procs grp"
    by (auto simp: thermostat_group_eq group_n_particles_names split: if_splits sum.splits)
  have "ar = exact_arith
      \<and> fl_sqrt ar (group_alpha2 ar D procs config grp (fst (random_gaussian g)) SNf) \<noteq> None
      \<and> (\<forall>rows \<in> set (selected procs grp). \<forall>row \<in> set rows. length row = D \<and> None \<notin> set row)
      \<longrightarrow> group_com ar D procs' grp = group_com ar D procs grp"
  proof (intro impI, elim conjE)
    assume ar: "ar = exact_arith"
      and a: "fl_sqrt ar (group_alpha2 ar D procs config grp (fst (random_gaussian g)) SNf) \<noteq> None"
      and fin: "\<forall>rows \<in> set (selected procs grp). \<forall>row \<in> set rows.
                  length row = D \<and> None \<notin> set row"
    from a obtain x where
      x: "fl_sqrt ar (group_alpha2 ar D procs config grp (fst (random_gaussian g)) SNf) = Some x"
      by auto
    from new x have "selected procs' grp
           = map (rescaled ar (group_com ar D procs grp) (Some x)) (selected procs grp)"
      by simp
    then show "group_com ar D procs' grp = group_com ar D procs grp"
      unfolding ar by (rule com_conserved_exact [OF ir assms(2) fin _ names])
  qed
  with chi new show ?thesis by blast
qed

theorem C8_centre_of_mass_readded_witness:
  "\<exists>procs' config' g'.
     thermostat_group exact_arith 3 (stub_gaussian 1) (stub_chi_squared 5) [''A'']
       (two_particles, couple_A, []) = Inr (procs', config', g')
     \<and> 0 < group_n_particles two_particles [''A'']
     \<and> group_com exact_arith 3 procs' [''A''] = [Some 0, Some 0, Some 0]"
proof -
  obtain procs' config' g' where run:
    "thermostat_group exact_arith 3 (stub_gaussian 1) (stub_chi_squared 5) [''A'']
       (two_particles, couple_A, []) = Inr (procs', config', g')"
    using two_particles_run by blast
  have n: "0 < group_n_particles two_particles [''A'']"
    by (simp add: two_particles_n)
  have fin: "\<forall>rows \<in> set (selected two_particles [''A'']). \<forall>row \<in> set rows.
               length row = 3 \<and> None \<notin> set row"
    by (simp add: two_particles_selected)
  from C8_centre_of_mass_readded [OF run n] two_particles_alpha fin
  have "group_com exact_arith 3 procs' [''A''] = group_com exact_arith 3 two_particles [''A'']"
    by (auto simp: stub_gaussian_def stub_chi_squared_def)
  with run n show ?thesis
    unfolding two_particles_com by blast
qed

text \<open>
  C10: when a coupling group matches no particle on any process (\<open>N = 0\<close>), the
  thermostat still divides the summed velocity of the group by \<open>N\<close>: every component
  of \<open>com_velocity / group_n_particles\<close> is a division by zero and is not finite. The
  call does not skip the group: unless \<open>tau\<close> is zero (the call then raises before),
  rank 0 asks the chi-squared generator for a deviate with \<open>3 N - 1 = -1\<close> degrees of
  freedom. A stub generator records that request, and the call returns with the
  velocities unchanged and \<open>0.0\<close> added to the thermostat work; the default generator
  \<open>np.random.chisquare\<close> raises \<open>ValueError\<close>.
\<close>

theorem C10_empty_group:
  assumes "group_n_particles procs grp = 0"
  shows "group_com ar D procs grp = replicate D None
       \<and> (tau config \<noteq> 0 \<longrightarrow>
            thermostat_group ar D (stub_gaussian R) (stub_chi_squared SNf) grp (procs, config, g)
              = Inr (procs,
                     config\<lparr>thermostat_work := fl_add ar (thermostat_work config) (Some 0)\<rparr>,
                     g @ [- 1])
          \<and> thermostat_group ar D default_random_gaussian default_random_chi_squared grp
                (procs, config, rng)
              = Inl ValueError)"
proof (intro conjI impI)
  show "group_com ar D procs grp = replicate D None"
    using assms by (rule empty_group_com)
next
  assume "tau config \<noteq> 0"
  then show "thermostat_group ar D (stub_gaussian R) (stub_chi_squared SNf) grp (procs, config, g)
              = Inr (procs,
                     config\<lparr>thermostat_work := fl_add ar (thermostat_work config) (Some 0)\<rparr>,
                     g @ [- 1])"
    unfolding thermostat_group_eq
    by (simp add: assms empty_group_in_range [OF assms] empty_group_unchanged [OF assms]
        stub_gaussian_def stub_chi_squared_def N_f_def)
next
  assume "tau config \<noteq> 0"
  then show "thermostat_group ar D default_random_gaussian default_random_chi_squared grp
                (procs, config, rng) = Inl ValueError"
    unfolding thermostat_group_eq
    by (simp add: assms empty_group_in_range [OF assms] default_random_chi_squared_def N_f_def)
qed

theorem C10_empty_group_witness:
  "group_n_particles one_particle [''B''] = 0
   \<and> group_com exact_arith 3 one_particle [''B''] = [None, None, None]
   \<and> thermostat_group exact_arith 3 (stub_gaussian 1) (stub_chi_squared 5) [''B'']
       (one_particle, couple_B, []) = Inr (one_particle, couple_B, [- 1])
   \<and> thermostat_group exact_arith 3 default_random_gaussian default_random_chi_squared [''B'']
       (one_particle, couple_B, fresh_random) = Inl ValueError"
  using C10_empty_group [OF one_particle_B, of exact_arith 3 couple_B 1 5 "[]" fresh_random]
  by (simp add: one_particle_B couple_B_def couple_A_def numeral_3_eq_3)

end
